theory Spec2Isabelle
  imports Main
begin

section \<open>Data model (src/db/tables.ts)\<close>

text \<open>
  A JavaScript \<open>Date\<close> is its number of milliseconds since the epoch. Every
  \<open>new Date()\<close> of a handler is a separate reading of the clock, so each handler
  below takes one time argument per \<open>new Date()\<close> it contains.
\<close>

type_synonym time = int

text \<open>
  A \<open>column.json\<close> value. JavaScript sees one \<open>null\<close> for a missing value of
  an optional JSON column and for the JSON value null: both are \<open>JNull\<close>.
\<close>

datatype json =
    JNull
  | JBool bool
  | JNum int
  | JStr string
  | JArr "json list"
  | JObj "(string \<times> json) list"

datatype SessionStatus = In_progress | Completed | Cancelled

datatype IntervalType = Focus | Break | Long_break

text \<open>A row of \<open>TimerPresets\<close>; an optional column is \<open>None\<close> when NULL.\<close>

record Preset =
  id :: int
  ownerId :: string
  name :: string
  focusMinutes :: int
  shortBreakMinutes :: int
  longBreakMinutes :: "int option"
  cyclesBeforeLongBreak :: "int option"
  cyclesPerBlock :: "int option"
  isDefault :: bool
  createdAt :: time
  updatedAt :: time

text \<open>A row of \<open>FocusSessions\<close>.\<close>

record Session =
  id :: int
  userId :: string
  presetId :: "int option"
  label :: "string option"
  plannedFocusMinutes :: "int option"
  actualFocusMinutes :: int
  actualBreakMinutes :: int
  plannedCycles :: "int option"
  completedCycles :: int
  status :: SessionStatus
  startedAt :: time
  endedAt :: "time option"
  meta :: json

text \<open>A row of \<open>FocusIntervals\<close>.\<close>

record Interval =
  id :: int
  sessionId :: int
  type :: IntervalType
  startedAt :: time
  endedAt :: "time option"
  durationSeconds :: int
  completed :: bool

text \<open>The database: the three tables, each the list of its rows in insertion order.\<close>

record db =
  TimerPresets :: "Preset list"
  FocusSessions :: "Session list"
  FocusIntervals :: "Interval list"

section \<open>Store operations used by the handlers\<close>

text \<open>
  \<open>id: column.number({ primaryKey: true, autoIncrement: true })\<close>: the store gives a
  new row an id one above the largest id of the table, and 1 in an empty table. No
  handler deletes a row.
\<close>

definition autoIncrement :: "int list \<Rightarrow> int" where
  "autoIncrement ids = foldr max ids 0 + 1"

text \<open>\<open>db.select().from(T).where(P)\<close>\<close>

definition select_where :: "('r \<Rightarrow> bool) \<Rightarrow> 'r list \<Rightarrow> 'r list" where
  "select_where P rows = filter P rows"

text \<open>
  \<open>const [row] = await ...\<close>: the first row of a result, \<open>undefined\<close>
  (\<open>None\<close>) when the result is empty. With \<open>.limit(1)\<close> the result has at most
  that row.
\<close>

definition first_row :: "'r list \<Rightarrow> 'r option" where
  "first_row rows = (case rows of [] \<Rightarrow> None | r # _ \<Rightarrow> Some r)"

text \<open>\<open>db.update(T).set(f).where(P)\<close>: the table afterwards.\<close>

definition update_where :: "('r \<Rightarrow> bool) \<Rightarrow> ('r \<Rightarrow> 'r) \<Rightarrow> 'r list \<Rightarrow> 'r list" where
  "update_where P f rows = map (\<lambda>r. if P r then f r else r) rows"

text \<open>\<open>.returning()\<close> of that update: the updated rows.\<close>

definition update_returning :: "('r \<Rightarrow> bool) \<Rightarrow> ('r \<Rightarrow> 'r) \<Rightarrow> 'r list \<Rightarrow> 'r list" where
  "update_returning P f rows = map f (filter P rows)"

text \<open>\<open>db.insert(T).values(r)\<close>: the table afterwards.\<close>

definition insert_row :: "'r \<Rightarrow> 'r list \<Rightarrow> 'r list" where
  "insert_row r rows = rows @ [r]"

text \<open>
  \<open>presetId: column.number({ references: () => TimerPresets.columns.id, optional: true })\<close>:
  the store rejects the insert of a session whose \<open>presetId\<close> is not NULL and is the
  id of no preset, whoever owns it. The insert then throws the error of the store, which
  is no \<open>ActionError\<close>, and stores nothing.
\<close>

datatype StoreError = SQLITE_CONSTRAINT_FOREIGNKEY

definition references_preset :: "int option \<Rightarrow> Preset list \<Rightarrow> bool" where
  "references_preset reference presets =
     (case reference of None \<Rightarrow> True | Some i \<Rightarrow> i \<in> set (map Preset.id presets))"

section \<open>Authorization guard\<close>

record User =
  id :: string

record Locals =
  user :: "User option"

record ActionAPIContext =
  locals :: "Locals option"

datatype ActionErrorCode = UNAUTHORIZED | NOT_FOUND

datatype ActionError = ActionError (code: ActionErrorCode) (message: string)

text \<open>\<open>locals?.user\<close>: the signed-in identity of the request, if there is one.\<close>

definition locals_user :: "ActionAPIContext \<Rightarrow> User option" where
  "locals_user context = (case locals context of None \<Rightarrow> None | Some l \<Rightarrow> user l)"

text \<open>\<open>requireUser\<close> throws when there is none.\<close>

definition requireUser :: "ActionAPIContext \<Rightarrow> ActionError + User" where
  "requireUser context =
     (case locals_user context of
        None \<Rightarrow>
          Inl (ActionError UNAUTHORIZED ''You must be signed in to perform this action.'')
      | Some u \<Rightarrow> Inr u)"

section \<open>Inputs and their schemas\<close>

text \<open>
  An optional key of an input is \<open>None\<close> when it is \<open>undefined\<close>. A number that
  passed \<open>z.number().int()\<close> is an \<open>int\<close>.
\<close>

record CreatePresetInput =
  name :: string
  focusMinutes :: "int option"
  shortBreakMinutes :: "int option"
  longBreakMinutes :: "int option"
  cyclesBeforeLongBreak :: "int option"
  cyclesPerBlock :: "int option"
  isDefault :: "bool option"

record UpdatePresetInput =
  id :: int
  name :: "string option"
  focusMinutes :: "int option"
  shortBreakMinutes :: "int option"
  longBreakMinutes :: "int option"
  cyclesBeforeLongBreak :: "int option"
  cyclesPerBlock :: "int option"
  isDefault :: "bool option"

record StartSessionInput =
  presetId :: "int option"
  label :: "string option"
  plannedFocusMinutes :: "int option"
  plannedCycles :: "int option"
  meta :: "json option"

record CompleteSessionInput =
  id :: int
  actualFocusMinutes :: "int option"
  actualBreakMinutes :: "int option"
  completedCycles :: "int option"
  status :: "SessionStatus option"
  meta :: "json option"

record AddIntervalInput =
  sessionId :: int
  type :: "IntervalType option"
  startedAt :: "time option"
  endedAt :: "time option"
  durationSeconds :: "int option"
  completed :: "bool option"

record ListIntervalsInput =
  sessionId :: int

text \<open>\<open>.positive().optional()\<close> and \<open>.nonnegative().optional()\<close>\<close>

definition positive_optional :: "int option \<Rightarrow> bool" where
  "positive_optional x = (case x of None \<Rightarrow> True | Some n \<Rightarrow> 0 < n)"

definition nonnegative_optional :: "int option \<Rightarrow> bool" where
  "nonnegative_optional x = (case x of None \<Rightarrow> True | Some n \<Rightarrow> 0 \<le> n)"

definition createPreset_schema :: "CreatePresetInput \<Rightarrow> bool" where
  "createPreset_schema input =
     (1 \<le> length (CreatePresetInput.name input) \<and>
      positive_optional (CreatePresetInput.focusMinutes input) \<and>
      positive_optional (CreatePresetInput.shortBreakMinutes input) \<and>
      positive_optional (CreatePresetInput.longBreakMinutes input) \<and>
      positive_optional (CreatePresetInput.cyclesBeforeLongBreak input) \<and>
      positive_optional (CreatePresetInput.cyclesPerBlock input))"

definition updatePreset_schema :: "UpdatePresetInput \<Rightarrow> bool" where
  "updatePreset_schema input =
     ((case UpdatePresetInput.name input of None \<Rightarrow> True | Some n \<Rightarrow> 1 \<le> length n) \<and>
      positive_optional (UpdatePresetInput.focusMinutes input) \<and>
      positive_optional (UpdatePresetInput.shortBreakMinutes input) \<and>
      positive_optional (UpdatePresetInput.longBreakMinutes input) \<and>
      positive_optional (UpdatePresetInput.cyclesBeforeLongBreak input) \<and>
      positive_optional (UpdatePresetInput.cyclesPerBlock input))"

definition startSession_schema :: "StartSessionInput \<Rightarrow> bool" where
  "startSession_schema input =
     (positive_optional (StartSessionInput.plannedFocusMinutes input) \<and>
      positive_optional (StartSessionInput.plannedCycles input))"

definition completeSession_schema :: "CompleteSessionInput \<Rightarrow> bool" where
  "completeSession_schema input =
     (nonnegative_optional (CompleteSessionInput.actualFocusMinutes input) \<and>
      nonnegative_optional (CompleteSessionInput.actualBreakMinutes input) \<and>
      nonnegative_optional (CompleteSessionInput.completedCycles input))"

definition addInterval_schema :: "AddIntervalInput \<Rightarrow> bool" where
  "addInterval_schema input =
     nonnegative_optional (AddIntervalInput.durationSeconds input)"

section \<open>JavaScript operators of the handlers\<close>

text \<open>\<open>if (input.isDefault)\<close>: \<open>undefined\<close> and \<open>false\<close> are falsy.\<close>

definition truthy_boolean :: "bool option \<Rightarrow> bool" where
  "truthy_boolean x = (case x of None \<Rightarrow> False | Some b \<Rightarrow> b)"

text \<open>\<open>if (input.presetId)\<close>: \<open>undefined\<close> and the number 0 are falsy.\<close>

definition truthy_number :: "int option \<Rightarrow> bool" where
  "truthy_number x = (case x of None \<Rightarrow> False | Some n \<Rightarrow> n \<noteq> 0)"

text \<open>\<open>a ?? b\<close> where \<open>a\<close> is \<open>undefined\<close> or a value that is never null.\<close>

definition nullish :: "'a option \<Rightarrow> 'a \<Rightarrow> 'a" where
  "nullish a b = (case a of None \<Rightarrow> b | Some v \<Rightarrow> v)"

text \<open>\<open>input.meta ?? session.meta\<close>: \<open>z.any()\<close> also lets \<open>null\<close> through.\<close>

definition nullish_json :: "json option \<Rightarrow> json \<Rightarrow> json" where
  "nullish_json a b = (case a of None \<Rightarrow> b | Some JNull \<Rightarrow> b | Some v \<Rightarrow> v)"

text \<open>A value written to an optional JSON column: \<open>undefined\<close> is stored as null.\<close>

definition json_column :: "json option \<Rightarrow> json" where
  "json_column a = (case a of None \<Rightarrow> JNull | Some v \<Rightarrow> v)"

section \<open>The handlers (src/unnamed/part_000)\<close>

text \<open>
  A handler takes its validated input, the request context, the clock readings of its
  \<open>new Date()\<close> calls and the database, and returns what it returns or throws
  together with the database it leaves behind.
\<close>

text \<open>
  The query of \<open>updatePreset\<close> and \<open>startSession\<close>: the first preset with that id
  and \<open>ownerId = user.id\<close>.
\<close>

definition owned_preset :: "int \<Rightarrow> User \<Rightarrow> Preset \<Rightarrow> bool" where
  "owned_preset i u p = (Preset.id p = i \<and> Preset.ownerId p = User.id u)"

definition select_preset :: "int \<Rightarrow> User \<Rightarrow> db \<Rightarrow> Preset option" where
  "select_preset i u d = first_row (select_where (owned_preset i u) (TimerPresets d))"

text \<open>
  The query of \<open>completeSession\<close>, \<open>addInterval\<close> and \<open>listIntervals\<close>: the first
  session with that id and \<open>userId = user.id\<close>.
\<close>

definition owned_session :: "int \<Rightarrow> User \<Rightarrow> Session \<Rightarrow> bool" where
  "owned_session i u r = (Session.id r = i \<and> Session.userId r = User.id u)"

definition select_session :: "int \<Rightarrow> User \<Rightarrow> db \<Rightarrow> Session option" where
  "select_session i u d = first_row (select_where (owned_session i u) (FocusSessions d))"

definition clear_default :: "time \<Rightarrow> Preset \<Rightarrow> Preset" where
  "clear_default now p = p\<lparr>Preset.isDefault := False, Preset.updatedAt := now\<rparr>"

text \<open>
  \<open>createPreset\<close>: \<open>now_clear\<close> is the \<open>new Date()\<close> of the clearing update,
  \<open>now_created\<close> and \<open>now_updated\<close> those of the inserted values.
\<close>

definition createPreset ::
  "CreatePresetInput \<Rightarrow> ActionAPIContext \<Rightarrow> time \<Rightarrow> time \<Rightarrow> time \<Rightarrow> db
   \<Rightarrow> (ActionError + Preset) \<times> db" where
  "createPreset input context now_clear now_created now_updated d =
     (case requireUser context of
        Inl e \<Rightarrow> (Inl e, d)
      | Inr u \<Rightarrow>
          let d1 =
                (if truthy_boolean (CreatePresetInput.isDefault input)
                 then d\<lparr>TimerPresets :=
                          update_where (\<lambda>p. Preset.ownerId p = User.id u)
                            (clear_default now_clear) (TimerPresets d)\<rparr>
                 else d);
              preset =
                \<lparr>Preset.id = autoIncrement (map Preset.id (TimerPresets d1)),
                 ownerId = User.id u,
                 name = CreatePresetInput.name input,
                 focusMinutes = nullish (CreatePresetInput.focusMinutes input) 25,
                 shortBreakMinutes = nullish (CreatePresetInput.shortBreakMinutes input) 5,
                 longBreakMinutes = CreatePresetInput.longBreakMinutes input,
                 cyclesBeforeLongBreak = CreatePresetInput.cyclesBeforeLongBreak input,
                 cyclesPerBlock = CreatePresetInput.cyclesPerBlock input,
                 isDefault = nullish (CreatePresetInput.isDefault input) False,
                 createdAt = now_created,
                 updatedAt = now_updated\<rparr>
          in (Inr preset, d1\<lparr>TimerPresets := insert_row preset (TimerPresets d1)\<rparr>))"

text \<open>
  \<open>updateData\<close> of \<open>updatePreset\<close>: the keys of \<open>rest\<close> whose value is not
  \<open>undefined\<close>, in the order of the schema.
\<close>

definition updateData_keys :: "UpdatePresetInput \<Rightarrow> string list" where
  "updateData_keys input =
     (case UpdatePresetInput.name input of None \<Rightarrow> [] | Some _ \<Rightarrow> [''name'']) @
     (case UpdatePresetInput.focusMinutes input of None \<Rightarrow> [] | Some _ \<Rightarrow> [''focusMinutes'']) @
     (case UpdatePresetInput.shortBreakMinutes input of None \<Rightarrow> []
      | Some _ \<Rightarrow> [''shortBreakMinutes'']) @
     (case UpdatePresetInput.longBreakMinutes input of None \<Rightarrow> []
      | Some _ \<Rightarrow> [''longBreakMinutes'']) @
     (case UpdatePresetInput.cyclesBeforeLongBreak input of None \<Rightarrow> []
      | Some _ \<Rightarrow> [''cyclesBeforeLongBreak'']) @
     (case UpdatePresetInput.cyclesPerBlock input of None \<Rightarrow> []
      | Some _ \<Rightarrow> [''cyclesPerBlock'']) @
     (case UpdatePresetInput.isDefault input of None \<Rightarrow> [] | Some _ \<Rightarrow> [''isDefault''])"

text \<open>\<open>.set({ ...updateData, updatedAt: new Date() })\<close> on one row.\<close>

definition set_updateData :: "UpdatePresetInput \<Rightarrow> time \<Rightarrow> Preset \<Rightarrow> Preset" where
  "set_updateData input now p =
     p\<lparr>Preset.name := nullish (UpdatePresetInput.name input) (Preset.name p),
       Preset.focusMinutes :=
         nullish (UpdatePresetInput.focusMinutes input) (Preset.focusMinutes p),
       Preset.shortBreakMinutes :=
         nullish (UpdatePresetInput.shortBreakMinutes input) (Preset.shortBreakMinutes p),
       Preset.longBreakMinutes :=
         (case UpdatePresetInput.longBreakMinutes input of
            None \<Rightarrow> Preset.longBreakMinutes p | Some v \<Rightarrow> Some v),
       Preset.cyclesBeforeLongBreak :=
         (case UpdatePresetInput.cyclesBeforeLongBreak input of
            None \<Rightarrow> Preset.cyclesBeforeLongBreak p | Some v \<Rightarrow> Some v),
       Preset.cyclesPerBlock :=
         (case UpdatePresetInput.cyclesPerBlock input of
            None \<Rightarrow> Preset.cyclesPerBlock p | Some v \<Rightarrow> Some v),
       Preset.isDefault := nullish (UpdatePresetInput.isDefault input) (Preset.isDefault p),
       Preset.updatedAt := now\<rparr>"

text \<open>
  \<open>updatePreset\<close>: \<open>now_clear\<close> is the \<open>new Date()\<close> of the clearing update,
  \<open>now_set\<close> that of the final update. The result is the first returned row, which
  JavaScript leaves \<open>undefined\<close> when the update matched no row.
\<close>

definition updatePreset ::
  "UpdatePresetInput \<Rightarrow> ActionAPIContext \<Rightarrow> time \<Rightarrow> time \<Rightarrow> db
   \<Rightarrow> (ActionError + Preset option) \<times> db" where
  "updatePreset input context now_clear now_set d =
     (case requireUser context of
        Inl e \<Rightarrow> (Inl e, d)
      | Inr u \<Rightarrow>
          (case select_preset (UpdatePresetInput.id input) u d of
             None \<Rightarrow> (Inl (ActionError NOT_FOUND ''Preset not found.''), d)
           | Some existing \<Rightarrow>
               (let owned = owned_preset (UpdatePresetInput.id input) u;
                    d1 =
                      (if truthy_boolean (UpdatePresetInput.isDefault input)
                       then d\<lparr>TimerPresets :=
                                update_where
                                  (\<lambda>p. Preset.ownerId p = User.id u \<and> Preset.isDefault p = True)
                                  (clear_default now_clear) (TimerPresets d)\<rparr>
                       else d)
                in if length (updateData_keys input) = 0
                   then (Inr (Some existing), d1)
                   else (Inr (first_row
                                (update_returning owned (set_updateData input now_set)
                                   (TimerPresets d1))),
                         d1\<lparr>TimerPresets :=
                              update_where owned (set_updateData input now_set)
                                (TimerPresets d1)\<rparr>))))"

definition listPresets :: "ActionAPIContext \<Rightarrow> db \<Rightarrow> (ActionError + Preset list) \<times> db" where
  "listPresets context d =
     (case requireUser context of
        Inl e \<Rightarrow> (Inl e, d)
      | Inr u \<Rightarrow>
          (Inr (select_where (\<lambda>p. Preset.ownerId p = User.id u) (TimerPresets d)), d))"

text \<open>The insert of \<open>startSession\<close>; the columns it does not name take their defaults.\<close>

definition insert_session :: "StartSessionInput \<Rightarrow> User \<Rightarrow> time \<Rightarrow> db \<Rightarrow> Session" where
  "insert_session input u now d =
     \<lparr>Session.id = autoIncrement (map Session.id (FocusSessions d)),
      userId = User.id u,
      presetId = StartSessionInput.presetId input,
      label = StartSessionInput.label input,
      plannedFocusMinutes = StartSessionInput.plannedFocusMinutes input,
      actualFocusMinutes = 0,
      actualBreakMinutes = 0,
      plannedCycles = StartSessionInput.plannedCycles input,
      completedCycles = 0,
      status = In_progress,
      startedAt = now,
      endedAt = None,
      meta = json_column (StartSessionInput.meta input)\<rparr>"

text \<open>
  \<open>startSession\<close> returns the session, or throws one of its \<open>ActionError\<close>s, or
  throws the error of the store when the insert breaks the foreign key.
\<close>

definition startSession ::
  "StartSessionInput \<Rightarrow> ActionAPIContext \<Rightarrow> time \<Rightarrow> db
   \<Rightarrow> (ActionError + StoreError + Session) \<times> db" where
  "startSession input context now d =
     (case requireUser context of
        Inl e \<Rightarrow> (Inl e, d)
      | Inr u \<Rightarrow>
          let session = insert_session input u now d;
              inserted =
                (if references_preset (Session.presetId session) (TimerPresets d)
                 then (Inr (Inr session),
                       d\<lparr>FocusSessions := insert_row session (FocusSessions d)\<rparr>)
                 else (Inr (Inl SQLITE_CONSTRAINT_FOREIGNKEY), d))
          in if truthy_number (StartSessionInput.presetId input)
             then (case StartSessionInput.presetId input of
                     None \<Rightarrow> inserted
                   | Some i \<Rightarrow>
                       (case select_preset i u d of
                          None \<Rightarrow> (Inl (ActionError NOT_FOUND ''Preset not found.''), d)
                        | Some preset \<Rightarrow> inserted))
             else inserted)"

text \<open>The \<open>.set({...})\<close> of \<open>completeSession\<close>, computed from the selected row.\<close>

definition set_complete :: "CompleteSessionInput \<Rightarrow> Session \<Rightarrow> time \<Rightarrow> Session \<Rightarrow> Session" where
  "set_complete input session now r =
     r\<lparr>Session.actualFocusMinutes :=
         nullish (CompleteSessionInput.actualFocusMinutes input)
           (Session.actualFocusMinutes session),
       Session.actualBreakMinutes :=
         nullish (CompleteSessionInput.actualBreakMinutes input)
           (Session.actualBreakMinutes session),
       Session.completedCycles :=
         nullish (CompleteSessionInput.completedCycles input) (Session.completedCycles session),
       Session.status := nullish (CompleteSessionInput.status input) Completed,
       Session.endedAt := Some now,
       Session.meta := nullish_json (CompleteSessionInput.meta input) (Session.meta session)\<rparr>"

definition completeSession ::
  "CompleteSessionInput \<Rightarrow> ActionAPIContext \<Rightarrow> time \<Rightarrow> db
   \<Rightarrow> (ActionError + Session option) \<times> db" where
  "completeSession input context now d =
     (case requireUser context of
        Inl e \<Rightarrow> (Inl e, d)
      | Inr u \<Rightarrow>
          (case select_session (CompleteSessionInput.id input) u d of
             None \<Rightarrow> (Inl (ActionError NOT_FOUND ''Session not found.''), d)
           | Some session \<Rightarrow>
               let same_id = (\<lambda>r. Session.id r = CompleteSessionInput.id input)
               in (Inr (first_row
                          (update_returning same_id (set_complete input session now)
                             (FocusSessions d))),
                   d\<lparr>FocusSessions :=
                       update_where same_id (set_complete input session now)
                         (FocusSessions d)\<rparr>)))"

text \<open>
  \<open>addInterval\<close>: \<open>sessionId\<close> references \<open>FocusSessions.id\<close>, and the insert
  is reached only after the query has found a session with that id, so the store never
  rejects it.
\<close>

definition addInterval ::
  "AddIntervalInput \<Rightarrow> ActionAPIContext \<Rightarrow> time \<Rightarrow> db \<Rightarrow> (ActionError + Interval) \<times> db" where
  "addInterval input context now d =
     (case requireUser context of
        Inl e \<Rightarrow> (Inl e, d)
      | Inr u \<Rightarrow>
          (case select_session (AddIntervalInput.sessionId input) u d of
             None \<Rightarrow> (Inl (ActionError NOT_FOUND ''Session not found.''), d)
           | Some session \<Rightarrow>
               let interval =
                     \<lparr>Interval.id = autoIncrement (map Interval.id (FocusIntervals d)),
                      sessionId = AddIntervalInput.sessionId input,
                      type = nullish (AddIntervalInput.type input) Focus,
                      startedAt = nullish (AddIntervalInput.startedAt input) now,
                      endedAt = AddIntervalInput.endedAt input,
                      durationSeconds = nullish (AddIntervalInput.durationSeconds input) 0,
                      completed = nullish (AddIntervalInput.completed input) False\<rparr>
               in (Inr interval,
                   d\<lparr>FocusIntervals := insert_row interval (FocusIntervals d)\<rparr>)))"

definition listIntervals ::
  "ListIntervalsInput \<Rightarrow> ActionAPIContext \<Rightarrow> db \<Rightarrow> (ActionError + Interval list) \<times> db" where
  "listIntervals input context d =
     (case requireUser context of
        Inl e \<Rightarrow> (Inl e, d)
      | Inr u \<Rightarrow>
          (case select_session (ListIntervalsInput.sessionId input) u d of
             None \<Rightarrow> (Inl (ActionError NOT_FOUND ''Session not found.''), d)
           | Some session \<Rightarrow>
               (Inr (select_where
                       (\<lambda>i. Interval.sessionId i = ListIntervalsInput.sessionId input)
                       (FocusIntervals d)),
                d)))"

text \<open>The three errors the handlers throw.\<close>

definition unauthorized :: ActionError where
  "unauthorized = ActionError UNAUTHORIZED ''You must be signed in to perform this action.''"

definition preset_not_found :: ActionError where
  "preset_not_found = ActionError NOT_FOUND ''Preset not found.''"

definition session_not_found :: ActionError where
  "session_not_found = ActionError NOT_FOUND ''Session not found.''"

section \<open>Sequences of calls\<close>

text \<open>One call of an operation: its input and its clock readings.\<close>

datatype Call =
    CreatePreset CreatePresetInput time time time
  | UpdatePreset UpdatePresetInput time time
  | ListPresets
  | StartSession StartSessionInput time
  | CompleteSession CompleteSessionInput time
  | AddInterval AddIntervalInput time
  | ListIntervals ListIntervalsInput

text \<open>The database a call leaves behind, whether it returns or throws.\<close>

fun call_db :: "ActionAPIContext \<Rightarrow> Call \<Rightarrow> db \<Rightarrow> db" where
  "call_db context (CreatePreset input t1 t2 t3) d = snd (createPreset input context t1 t2 t3 d)"
| "call_db context (UpdatePreset input t1 t2) d = snd (updatePreset input context t1 t2 d)"
| "call_db context ListPresets d = snd (listPresets context d)"
| "call_db context (StartSession input t) d = snd (startSession input context t d)"
| "call_db context (CompleteSession input t) d = snd (completeSession input context t d)"
| "call_db context (AddInterval input t) d = snd (addInterval input context t d)"
| "call_db context (ListIntervals input) d = snd (listIntervals input context d)"

text \<open>A sequence of calls, each with the context of its request.\<close>

fun run :: "(ActionAPIContext \<times> Call) list \<Rightarrow> db \<Rightarrow> db" where
  "run [] d = d"
| "run ((context, c) # cs) d = run cs (call_db context c d)"

text \<open>The row a handler returned, if it returned one.\<close>

definition returned :: "(ActionError + 'r option) \<times> db \<Rightarrow> 'r option" where
  "returned res = (case fst res of Inl e \<Rightarrow> None | Inr r \<Rightarrow> r)"

section \<open>Properties of the database\<close>

text \<open>\<open>primaryKey: true\<close> on \<open>TimerPresets.id\<close>: no two presets share an id.\<close>

definition presets_primary_key :: "db \<Rightarrow> bool" where
  "presets_primary_key d = distinct (map Preset.id (TimerPresets d))"

text \<open>The presets of an owner that are marked default.\<close>

definition default_presets :: "string \<Rightarrow> db \<Rightarrow> Preset list" where
  "default_presets owner d =
     filter (\<lambda>p. Preset.ownerId p = owner \<and> Preset.isDefault p) (TimerPresets d)"

definition at_most_one_default :: "string \<Rightarrow> db \<Rightarrow> bool" where
  "at_most_one_default owner d = (length (default_presets owner d) \<le> 1)"

text \<open>A session that has left \<open>in_progress\<close> has its \<open>endedAt\<close>.\<close>

definition ended_when_left :: "Session \<Rightarrow> bool" where
  "ended_when_left r = (Session.status r \<noteq> In_progress \<longrightarrow> Session.endedAt r \<noteq> None)"





text \<open>\<open>updatePreset\<close>: at least one of the optional fields is in the input.\<close>

definition some_field_supplied :: "UpdatePresetInput \<Rightarrow> bool" where
  "some_field_supplied input =
     (UpdatePresetInput.name input \<noteq> None \<or>
      UpdatePresetInput.focusMinutes input \<noteq> None \<or>
      UpdatePresetInput.shortBreakMinutes input \<noteq> None \<or>
      UpdatePresetInput.longBreakMinutes input \<noteq> None \<or>
      UpdatePresetInput.cyclesBeforeLongBreak input \<noteq> None \<or>
      UpdatePresetInput.cyclesPerBlock input \<noteq> None \<or>
      UpdatePresetInput.isDefault input \<noteq> None)"

text \<open>The columns of a session that \<open>completeSession\<close> does not set.\<close>

definition session_frame ::
  "Session \<Rightarrow> int \<times> string \<times> int option \<times> string option \<times> int option \<times> int option \<times> time" where
  "session_frame r =
     (Session.id r, Session.userId r, Session.presetId r, Session.label r,
      Session.plannedFocusMinutes r, Session.plannedCycles r, Session.startedAt r)"

text \<open>The columns of a preset other than \<open>isDefault\<close> and \<open>updatedAt\<close>.\<close>

definition preset_frame ::
  "Preset \<Rightarrow> int \<times> string \<times> string \<times> int \<times> int \<times> int option \<times> int option \<times> int option \<times> time"
  where
  "preset_frame p =
     (Preset.id p, Preset.ownerId p, Preset.name p, Preset.focusMinutes p,
      Preset.shortBreakMinutes p, Preset.longBreakMinutes p, Preset.cyclesBeforeLongBreak p,
      Preset.cyclesPerBlock p, Preset.createdAt p)"

section \<open>Example requests and databases\<close>

definition signed_in :: "string \<Rightarrow> ActionAPIContext" where
  "signed_in uid = \<lparr>locals = Some \<lparr>user = Some \<lparr>User.id = uid\<rparr>\<rparr>\<rparr>"

definition anonymous :: ActionAPIContext where
  "anonymous = \<lparr>locals = Some \<lparr>user = None\<rparr>\<rparr>"

definition empty_db :: db where
  "empty_db = \<lparr>TimerPresets = [], FocusSessions = [], FocusIntervals = []\<rparr>"

definition classic :: Preset where
  "classic =
     \<lparr>Preset.id = 1, ownerId = ''alice'', name = ''Classic'', focusMinutes = 25,
      shortBreakMinutes = 5, longBreakMinutes = None, cyclesBeforeLongBreak = None,
      cyclesPerBlock = None, isDefault = True, createdAt = 100, updatedAt = 100\<rparr>"

definition deep_work :: Preset where
  "deep_work =
     \<lparr>Preset.id = 2, ownerId = ''alice'', name = ''Deep Work'', focusMinutes = 50,
      shortBreakMinutes = 10, longBreakMinutes = Some 30, cyclesBeforeLongBreak = Some 4,
      cyclesPerBlock = None, isDefault = False, createdAt = 200, updatedAt = 200\<rparr>"

definition bobs_preset :: Preset where
  "bobs_preset =
     \<lparr>Preset.id = 3, ownerId = ''bob'', name = ''Sprint'', focusMinutes = 15,
      shortBreakMinutes = 3, longBreakMinutes = None, cyclesBeforeLongBreak = None,
      cyclesPerBlock = None, isDefault = True, createdAt = 300, updatedAt = 300\<rparr>"

definition evening :: Session where
  "evening =
     \<lparr>Session.id = 1, userId = ''alice'', presetId = Some 1, label = Some ''Evening'',
      plannedFocusMinutes = Some 25, actualFocusMinutes = 23, actualBreakMinutes = 4,
      plannedCycles = Some 4, completedCycles = 3, status = In_progress, startedAt = 400,
      endedAt = None, meta = JObj [(''tag'', JStr ''maths'')]\<rparr>"

definition bobs_session :: Session where
  "bobs_session =
     \<lparr>Session.id = 2, userId = ''bob'', presetId = None, label = None,
      plannedFocusMinutes = None, actualFocusMinutes = 0, actualBreakMinutes = 0,
      plannedCycles = None, completedCycles = 0, status = Completed, startedAt = 500,
      endedAt = Some 600, meta = JNull\<rparr>"

definition bobs_interval :: Interval where
  "bobs_interval =
     \<lparr>Interval.id = 1, sessionId = 2, type = Focus, startedAt = 500, endedAt = Some 600,
      durationSeconds = 100, completed = True\<rparr>"

definition example_db :: db where
  "example_db =
     \<lparr>TimerPresets = [classic, deep_work, bobs_preset],
      FocusSessions = [evening, bobs_session],
      FocusIntervals = [bobs_interval]\<rparr>"

definition alice :: User where
  "alice = \<lparr>User.id = ''alice''\<rparr>"


definition create_default_input :: CreatePresetInput where
  "create_default_input =
     \<lparr>CreatePresetInput.name = ''Long Run'', focusMinutes = Some 90, shortBreakMinutes = None,
      longBreakMinutes = None, cyclesBeforeLongBreak = None, cyclesPerBlock = None,
      isDefault = Some True\<rparr>"

definition update_nothing_input :: UpdatePresetInput where
  "update_nothing_input =
     \<lparr>UpdatePresetInput.id = 2, name = None, focusMinutes = None, shortBreakMinutes = None,
      longBreakMinutes = None, cyclesBeforeLongBreak = None, cyclesPerBlock = None,
      isDefault = None\<rparr>"

definition update_default_input :: UpdatePresetInput where
  "update_default_input =
     \<lparr>UpdatePresetInput.id = 2, name = Some ''Deeper Work'', focusMinutes = None,
      shortBreakMinutes = None, longBreakMinutes = None, cyclesBeforeLongBreak = None,
      cyclesPerBlock = None, isDefault = Some True\<rparr>"

definition start_input :: StartSessionInput where
  "start_input =
     \<lparr>presetId = Some 1, label = None, plannedFocusMinutes = Some 25, plannedCycles = None,
      meta = None\<rparr>"

definition start_zero_input :: StartSessionInput where
  "start_zero_input =
     \<lparr>presetId = Some 0, label = None, plannedFocusMinutes = None, plannedCycles = None,
      meta = None\<rparr>"

definition complete_input :: "int \<Rightarrow> SessionStatus option \<Rightarrow> CompleteSessionInput" where
  "complete_input i st =
     \<lparr>CompleteSessionInput.id = i, actualFocusMinutes = None, actualBreakMinutes = None,
      completedCycles = None, status = st, meta = None\<rparr>"

definition interval_input :: "int \<Rightarrow> AddIntervalInput" where
  "interval_input i =
     \<lparr>AddIntervalInput.sessionId = i, type = Some Break, startedAt = None, endedAt = None,
      durationSeconds = Some 300, completed = None\<rparr>"

definition example_calls :: "(ActionAPIContext \<times> Call) list" where
  "example_calls =
     [(signed_in ''alice'', StartSession start_input 700),
      (signed_in ''alice'', CompleteSession (complete_input 3 (Some In_progress)) 710),
      (signed_in ''bob'', CompleteSession (complete_input 2 (Some Cancelled)) 720),
      (anonymous, CompleteSession (complete_input 1 None) 730),
      (signed_in ''alice'', AddInterval (interval_input 1) 740)]"


definition example_preset_calls :: "(ActionAPIContext \<times> Call) list" where
  "example_preset_calls =
     [(signed_in ''alice'', CreatePreset create_default_input 700 701 702),
      (signed_in ''alice'', UpdatePreset update_default_input 710 711),
      (signed_in ''alice'', UpdatePreset update_nothing_input 720 721)]"

section \<open>Auxiliary facts\<close>

subsection \<open>The guard and the two queries\<close>

lemma requireUser_none: "locals_user context = None \<Longrightarrow> requireUser context = Inl unauthorized"
  by (simp add: requireUser_def unauthorized_def)

lemma requireUser_some: "locals_user context = Some u \<Longrightarrow> requireUser context = Inr u"
  by (simp add: requireUser_def)

lemma locals_user_signed_in: "locals_user (signed_in uid) = Some \<lparr>User.id = uid\<rparr>"
  by (simp add: signed_in_def locals_user_def)

lemma locals_user_anonymous: "locals_user anonymous = None"
  by (simp add: anonymous_def locals_user_def)

lemma first_row_filter_None: "first_row (filter P rows) = None \<longleftrightarrow> (\<forall>r \<in> set rows. \<not> P r)"
  by (induction rows) (auto simp: first_row_def)

lemma select_session_None:
  "select_session i u d = None \<longleftrightarrow>
     (\<forall>r \<in> set (FocusSessions d). \<not> (Session.id r = i \<and> Session.userId r = User.id u))"
  by (simp add: select_session_def select_where_def first_row_filter_None owned_session_def)

lemma select_preset_None:
  "select_preset i u d = None \<longleftrightarrow>
     (\<forall>p \<in> set (TimerPresets d). \<not> (Preset.id p = i \<and> Preset.ownerId p = User.id u))"
  by (simp add: select_preset_def select_where_def first_row_filter_None owned_preset_def)

lemma first_row_filter_Some:
  "first_row (filter P rows) = Some r \<Longrightarrow> P r \<and> r \<in> set rows"
  by (induction rows) (auto simp: first_row_def split: if_splits)

lemma first_row_filter_map:
  assumes "\<And>r. P (g r) = P r"
  shows "first_row (filter P (map g rows)) = map_option g (first_row (filter P rows))"
  using assms by (induction rows) (auto simp: first_row_def)

lemma first_row_map: "first_row (map f rows) = map_option f (first_row rows)"
  by (cases rows) (simp_all add: first_row_def)

lemma first_row_filter_weaker:
  assumes "first_row (filter P rows) = Some r" and "\<And>x. P x \<Longrightarrow> Q x"
  shows "first_row (filter Q rows) \<noteq> None"
  using assms first_row_filter_Some [OF assms(1)]
  by (auto simp: first_row_filter_None)

lemma select_session_owned:
  "select_session i u d = Some r \<Longrightarrow> Session.id r = i \<and> Session.userId r = User.id u \<and> r \<in> set (FocusSessions d)"
  using first_row_filter_Some [of "owned_session i u" "FocusSessions d" r]
  by (simp add: select_session_def select_where_def owned_session_def)

lemma select_preset_owned:
  "select_preset i u d = Some p \<Longrightarrow>
   Preset.id p = i \<and> Preset.ownerId p = User.id u \<and> p \<in> set (TimerPresets d)"
  using first_row_filter_Some [of "owned_preset i u" "TimerPresets d" p]
  by (simp add: select_preset_def select_where_def owned_preset_def)

subsection \<open>The examples\<close>

lemma alice_signed_in: "locals_user (signed_in ''alice'') = Some alice"
  by (simp add: locals_user_signed_in alice_def)

lemma example_db_primary_key: "presets_primary_key example_db"
  by (simp add: presets_primary_key_def example_db_def classic_def deep_work_def bobs_preset_def)

lemma example_db_one_default: "at_most_one_default ''alice'' example_db"
  by (simp add: at_most_one_default_def default_presets_def example_db_def classic_def
      deep_work_def bobs_preset_def)

lemma select_evening: "select_session 1 alice example_db = Some evening"
  by (simp add: select_session_def select_where_def first_row_def owned_session_def
      alice_def example_db_def evening_def bobs_session_def)

lemma select_deep_work: "select_preset 2 alice example_db = Some deep_work"
  by (simp add: select_preset_def select_where_def first_row_def owned_preset_def
      alice_def example_db_def classic_def deep_work_def bobs_preset_def)

subsection \<open>The tables a handler does not write\<close>

lemma createPreset_frame:
  "FocusSessions (snd (createPreset input context t1 t2 t3 d)) = FocusSessions d \<and>
   FocusIntervals (snd (createPreset input context t1 t2 t3 d)) = FocusIntervals d"
  by (simp add: createPreset_def Let_def split: sum.splits)

lemma updatePreset_frame:
  "FocusSessions (snd (updatePreset input context t1 t2 d)) = FocusSessions d \<and>
   FocusIntervals (snd (updatePreset input context t1 t2 d)) = FocusIntervals d"
  by (simp add: updatePreset_def Let_def split: sum.splits option.splits)

lemma listPresets_db: "snd (listPresets context d) = d"
  by (simp add: listPresets_def split: sum.splits)

lemma listIntervals_db: "snd (listIntervals input context d) = d"
  by (simp add: listIntervals_def split: sum.splits option.splits)

lemma startSession_frame:
  "TimerPresets (snd (startSession input context t d)) = TimerPresets d \<and>
   FocusIntervals (snd (startSession input context t d)) = FocusIntervals d"
  by (simp add: startSession_def Let_def split: sum.splits option.splits if_splits)

lemma completeSession_frame:
  "TimerPresets (snd (completeSession input context t d)) = TimerPresets d \<and>
   FocusIntervals (snd (completeSession input context t d)) = FocusIntervals d"
  by (simp add: completeSession_def Let_def split: sum.splits option.splits)

lemma addInterval_frame:
  "TimerPresets (snd (addInterval input context t d)) = TimerPresets d \<and>
   FocusSessions (snd (addInterval input context t d)) = FocusSessions d"
  by (simp add: addInterval_def Let_def split: sum.splits option.splits)

section \<open>Sessions: status and \<open>endedAt\<close>\<close>

lemma startSession_sessions:
  "FocusSessions (snd (startSession input context t d)) = FocusSessions d \<or>
   (\<exists>u. FocusSessions (snd (startSession input context t d)) =
          FocusSessions d @ [insert_session input u t d])"
  by (auto simp: startSession_def Let_def insert_row_def
      split: sum.splits option.splits if_splits)

lemma startSession_ended_when_left:
  "list_all ended_when_left (FocusSessions d) \<Longrightarrow>
   list_all ended_when_left (FocusSessions (snd (startSession input context t d)))"
  using startSession_sessions [of input "context" t d]
  by (auto simp: ended_when_left_def insert_session_def)

lemma completeSession_ended_when_left:
  "list_all ended_when_left (FocusSessions d) \<Longrightarrow>
   list_all ended_when_left (FocusSessions (snd (completeSession input context t d)))"
  by (auto simp: completeSession_def Let_def update_where_def set_complete_def
      ended_when_left_def list_all_iff split: sum.splits option.splits)

lemma call_db_ended_when_left:
  "list_all ended_when_left (FocusSessions d) \<Longrightarrow>
   list_all ended_when_left (FocusSessions (call_db context c d))"
proof (cases c)
  case (StartSession input t)
  then show "list_all ended_when_left (FocusSessions d) \<Longrightarrow> ?thesis"
    by (simp add: startSession_ended_when_left)
next
  case (CompleteSession input t)
  then show "list_all ended_when_left (FocusSessions d) \<Longrightarrow> ?thesis"
    by (simp add: completeSession_ended_when_left)
qed (simp_all add: createPreset_frame updatePreset_frame listPresets_db listIntervals_db
    addInterval_frame)

lemma example_db_ended: "list_all ended_when_left (FocusSessions example_db)"
  by (simp add: example_db_def evening_def bobs_session_def ended_when_left_def)

text \<open>
  Whatever the calls, one direction is an invariant: if every session that has left
  \<open>in_progress\<close> has its \<open>endedAt\<close>, then so it is after any sequence of calls.
\<close>

lemma ended_when_left_run:
  "list_all ended_when_left (FocusSessions d) \<Longrightarrow>
   list_all ended_when_left (FocusSessions (run cs d))"
proof (induction cs arbitrary: d)
  case Nil
  then show ?case by simp
next
  case (Cons a cs)
  obtain ctx c where a: "a = (ctx, c)" by (cases a)
  from Cons.prems have "list_all ended_when_left (FocusSessions (call_db ctx c d))"
    by (rule call_db_ended_when_left)
  then have "list_all ended_when_left (FocusSessions (run cs (call_db ctx c d)))"
    by (rule Cons.IH)
  then show ?case by (simp add: a)
qed

lemma ended_when_left_run_example:
  "list_all ended_when_left (FocusSessions (run example_calls example_db))"
  using ended_when_left_run [OF example_db_ended, of example_calls] by simp











section \<open>\<open>startSession\<close> and the preset it names\<close>

lemma startSession_unowned_nonzero:
  assumes "locals_user context = Some u"
    and "StartSessionInput.presetId input = Some i" and "i \<noteq> 0"
    and "\<forall>p \<in> set (TimerPresets d). \<not> (Preset.id p = i \<and> Preset.ownerId p = User.id u)"
  shows "startSession input context now d = (Inl preset_not_found, d)"
proof -
  have "select_preset i u d = None"
    using assms(4) by (simp add: select_preset_None)
  then show ?thesis
    using requireUser_some [OF assms(1)] assms(2,3)
    by (simp add: startSession_def truthy_number_def preset_not_found_def Let_def)
qed

lemma addInterval_reference:
  "fst (addInterval input context now d) = Inr interval \<Longrightarrow>
   Interval.sessionId interval \<in> set (map Session.id (FocusSessions d))"
proof (cases "requireUser context")
  case (Inl e)
  then show "fst (addInterval input context now d) = Inr interval \<Longrightarrow> ?thesis"
    by (simp add: addInterval_def)
next
  case (Inr u)
  show "fst (addInterval input context now d) = Inr interval \<Longrightarrow> ?thesis"
  proof (cases "select_session (AddIntervalInput.sessionId input) u d")
    case None
    with Inr show "fst (addInterval input context now d) = Inr interval \<Longrightarrow> ?thesis"
      by (simp add: addInterval_def)
  next
    case (Some session)
    with Inr show "fst (addInterval input context now d) = Inr interval \<Longrightarrow> ?thesis"
      using select_session_owned [OF Some]
      by (auto simp: addInterval_def Let_def image_iff intro!: bexI [of _ session])
  qed
qed

lemma startSession_zero_unreferenced:
  assumes "locals_user context = Some u"
    and "StartSessionInput.presetId input = Some 0"
    and "\<forall>p \<in> set (TimerPresets d). Preset.id p \<noteq> 0"
  shows "startSession input context now d = (Inr (Inl SQLITE_CONSTRAINT_FOREIGNKEY), d)"
proof -
  have "\<not> references_preset (Some 0) (TimerPresets d)"
    using assms(3) by (auto simp: references_preset_def)
  then show ?thesis
    using requireUser_some [OF assms(1)] assms(2)
    by (simp add: startSession_def truthy_number_def insert_session_def Let_def)
qed

text \<open>
  Claim C3 at \<open>presetId = 0\<close>. The input passes the schema and no preset has the id
  0, so the \<open>presetId\<close> resolves to no preset of the caller. But \<open>if (input.presetId)\<close>
  takes 0 for an absent key and the query is skipped: the handler goes on to the insert,
  the store rejects it for the foreign key, and the call throws the error of the store,
  not \<open>NOT_FOUND\<close>. No session is stored.
\<close>

theorem startSession_presetId_zero:
  "startSession_schema start_zero_input \<and>
   StartSessionInput.presetId start_zero_input = Some 0 \<and>
   select_preset 0 alice empty_db = None \<and>
   startSession start_zero_input (signed_in ''alice'') 700 empty_db =
     (Inr (Inl SQLITE_CONSTRAINT_FOREIGNKEY), empty_db) \<and>
   fst (startSession start_zero_input (signed_in ''alice'') 700 empty_db) \<noteq>
     Inl preset_not_found"
  by (simp add: startSession_schema_def start_zero_input_def positive_optional_def
      select_preset_def select_where_def first_row_def empty_db_def startSession_def
      requireUser_def locals_user_def signed_in_def truthy_number_def insert_session_def
      references_preset_def Let_def)

section \<open>Sessions of another user\<close>

text \<open>
  Claim C4. The caller is signed in and no session has both that id and the caller as
  its \<open>userId\<close>, be it that no session has the id or that the session is another
  user's. Then \<open>completeSession\<close>, \<open>addInterval\<close> and \<open>listIntervals\<close> on that
  id throw \<open>NOT_FOUND\<close> and leave the database as it was: no session is modified
  and no interval is inserted.
\<close>

theorem session_not_owned_not_found:
  assumes "locals_user context = Some u"
    and "\<forall>r \<in> set (FocusSessions d). \<not> (Session.id r = i \<and> Session.userId r = User.id u)"
  shows "code session_not_found = NOT_FOUND \<and>
         (CompleteSessionInput.id cs = i \<longrightarrow>
            completeSession cs context now d = (Inl session_not_found, d)) \<and>
         (AddIntervalInput.sessionId ai = i \<longrightarrow>
            addInterval ai context now d = (Inl session_not_found, d)) \<and>
         (ListIntervalsInput.sessionId li = i \<longrightarrow>
            listIntervals li context d = (Inl session_not_found, d))"
proof -
  have none: "select_session i u d = None"
    using assms(2) by (simp add: select_session_None)
  show ?thesis
    using requireUser_some [OF assms(1)] none
    by (simp add: completeSession_def addInterval_def listIntervals_def session_not_found_def)
qed

theorem session_not_owned_not_found_witness:
  "locals_user (signed_in ''alice'') = Some alice \<and>
   select_session 2 alice example_db = None \<and>
   bobs_session \<in> set (FocusSessions example_db) \<and> Session.id bobs_session = 2 \<and>
   completeSession (complete_input 2 None) (signed_in ''alice'') 700 example_db =
     (Inl session_not_found, example_db) \<and>
   addInterval (interval_input 2) (signed_in ''alice'') 700 example_db =
     (Inl session_not_found, example_db) \<and>
   listIntervals \<lparr>ListIntervalsInput.sessionId = 2\<rparr> (signed_in ''alice'') example_db =
     (Inl session_not_found, example_db)"
proof -
  have u: "locals_user (signed_in ''alice'') = Some alice"
    by (simp add: locals_user_signed_in alice_def)
  have no: "\<forall>r \<in> set (FocusSessions example_db).
              \<not> (Session.id r = 2 \<and> Session.userId r = User.id alice)"
    by (simp add: example_db_def evening_def bobs_session_def alice_def)
  have there: "bobs_session \<in> set (FocusSessions example_db) \<and> Session.id bobs_session = 2"
    by (simp add: example_db_def bobs_session_def)
  show ?thesis
    using session_not_owned_not_found [OF u no, of "complete_input 2 None" 700
        "interval_input 2" "\<lparr>ListIntervalsInput.sessionId = 2\<rparr>"] u no there
    by (simp add: complete_input_def interval_input_def select_session_None)
qed

section \<open>\<open>updatePreset\<close> with no field\<close>

text \<open>
  Claim C6. The caller is signed in and owns a preset with the id of the input, and the
  input supplies none of the seven optional fields. Then \<open>updatePreset\<close> returns
  that row and the database after the call is the database before it, so no
  \<open>updatedAt\<close> has changed.
\<close>

theorem updatePreset_no_field:
  assumes "locals_user context = Some u"
    and "select_preset (UpdatePresetInput.id input) u d = Some existing"
    and "UpdatePresetInput.name input = None"
    and "UpdatePresetInput.focusMinutes input = None"
    and "UpdatePresetInput.shortBreakMinutes input = None"
    and "UpdatePresetInput.longBreakMinutes input = None"
    and "UpdatePresetInput.cyclesBeforeLongBreak input = None"
    and "UpdatePresetInput.cyclesPerBlock input = None"
    and "UpdatePresetInput.isDefault input = None"
  shows "updatePreset input context now_clear now_set d = (Inr (Some existing), d)"
  using requireUser_some [OF assms(1)] assms(2-)
  by (simp add: updatePreset_def updateData_keys_def truthy_boolean_def)

theorem updatePreset_no_field_witness:
  "locals_user (signed_in ''alice'') = Some alice \<and>
   select_preset (UpdatePresetInput.id update_nothing_input) alice example_db = Some deep_work \<and>
   updatePreset update_nothing_input (signed_in ''alice'') 700 701 example_db =
     (Inr (Some deep_work), example_db)"
proof -
  have u: "locals_user (signed_in ''alice'') = Some alice"
    by (simp add: locals_user_signed_in alice_def)
  have sel: "select_preset (UpdatePresetInput.id update_nothing_input) alice example_db =
             Some deep_work"
    by (simp add: select_preset_def select_where_def first_row_def owned_preset_def
        update_nothing_input_def alice_def example_db_def classic_def deep_work_def
        bobs_preset_def)
  show ?thesis
    using updatePreset_no_field [OF u sel, of 700 701] u sel
    by (simp add: update_nothing_input_def)
qed

section \<open>Requests without an identity\<close>

text \<open>
  Claim C8. When the request context carries no signed-in identity, each of the seven
  handlers throws \<open>UNAUTHORIZED\<close> and leaves the database as it was, whatever the
  input and whatever the database holds: the result does not depend on any row.
\<close>

theorem unauthorized_before_store:
  assumes "locals_user context = None"
  shows "code unauthorized = UNAUTHORIZED \<and>
         createPreset cp context t1 t2 t3 d = (Inl unauthorized, d) \<and>
         updatePreset up context t1 t2 d = (Inl unauthorized, d) \<and>
         listPresets context d = (Inl unauthorized, d) \<and>
         startSession ss context t1 d = (Inl unauthorized, d) \<and>
         completeSession cs context t1 d = (Inl unauthorized, d) \<and>
         addInterval ai context t1 d = (Inl unauthorized, d) \<and>
         listIntervals li context d = (Inl unauthorized, d)"
  using requireUser_none [OF assms]
  by (simp add: createPreset_def updatePreset_def listPresets_def startSession_def
      completeSession_def addInterval_def listIntervals_def unauthorized_def)

theorem unauthorized_before_store_witness:
  "locals_user anonymous = None \<and>
   createPreset create_default_input anonymous 700 701 702 example_db =
     (Inl unauthorized, example_db) \<and>
   updatePreset update_default_input anonymous 700 701 example_db =
     (Inl unauthorized, example_db) \<and>
   listPresets anonymous example_db = (Inl unauthorized, example_db) \<and>
   startSession start_input anonymous 700 example_db = (Inl unauthorized, example_db) \<and>
   completeSession (complete_input 1 None) anonymous 700 example_db =
     (Inl unauthorized, example_db) \<and>
   addInterval (interval_input 1) anonymous 700 example_db = (Inl unauthorized, example_db) \<and>
   listIntervals \<lparr>ListIntervalsInput.sessionId = 1\<rparr> anonymous example_db =
     (Inl unauthorized, example_db)"
  using unauthorized_before_store [OF locals_user_anonymous, of create_default_input 700 701
      702 example_db update_default_input start_input "complete_input 1 None"
      "interval_input 1" "\<lparr>ListIntervalsInput.sessionId = 1\<rparr>"]
  by (simp add: locals_user_anonymous)

section \<open>\<open>completeSession\<close> on an owned session\<close>

lemma select_session_after_complete:
  assumes "locals_user context = Some u"
    and "select_session (CompleteSessionInput.id input) u d = Some session"
  shows "select_session (CompleteSessionInput.id input) u (snd (completeSession input context now d)) =
         Some (set_complete input session now session)"
proof -
  let ?i = "CompleteSessionInput.id input"
  let ?g = "\<lambda>r. if Session.id r = ?i then set_complete input session now r else r"
  have keep: "\<And>r. owned_session ?i u (?g r) = owned_session ?i u r"
    by (simp add: owned_session_def set_complete_def)
  have "select_session ?i u (snd (completeSession input context now d)) =
        first_row (filter (owned_session ?i u) (map ?g (FocusSessions d)))"
    using requireUser_some [OF assms(1)] assms(2)
    by (simp add: completeSession_def select_session_def select_where_def update_where_def Let_def)
  also have "\<dots> = map_option ?g (first_row (filter (owned_session ?i u) (FocusSessions d)))"
    using keep by (rule first_row_filter_map)
  also have "\<dots> = Some (?g session)"
    using assms(2) by (simp add: select_session_def select_where_def)
  finally show ?thesis
    using select_session_owned [OF assms(2)] by simp
qed

lemma returned_after_complete:
  assumes "locals_user context = Some u"
    and "select_session (CompleteSessionInput.id input) u d = Some session"
  shows "\<exists>r. returned (completeSession input context now d) = Some (set_complete input session now r)"
proof -
  let ?i = "CompleteSessionInput.id input"
  have "first_row (filter (\<lambda>r. Session.id r = ?i) (FocusSessions d)) \<noteq> None"
    using assms(2) unfolding select_session_def select_where_def
    by (rule first_row_filter_weaker) (simp add: owned_session_def)
  then obtain r where r: "first_row (filter (\<lambda>r. Session.id r = ?i) (FocusSessions d)) = Some r"
    by auto
  have "returned (completeSession input context now d) = Some (set_complete input session now r)"
    using requireUser_some [OF assms(1)] assms(2) r
    by (simp add: completeSession_def returned_def update_returning_def first_row_map Let_def)
  then show ?thesis ..
qed

text \<open>
  Claim C5. The caller is signed in and owns the session. After \<open>completeSession\<close>,
  both the session in the table and the row the call returns have \<open>endedAt\<close> equal
  to the clock reading of the call and the status of the input, \<open>completed\<close> when the
  input has none; and each of \<open>actualFocusMinutes\<close>, \<open>actualBreakMinutes\<close>,
  \<open>completedCycles\<close> and \<open>meta\<close> that the input leaves out has the value the
  session had before the call.
\<close>

theorem completeSession_fields:
  assumes "locals_user context = Some u"
    and "select_session (CompleteSessionInput.id input) u d = Some session"
  shows "list_all
           (\<lambda>after.
              map_option Session.endedAt after = Some (Some now) \<and>
              map_option Session.status after =
                Some (case CompleteSessionInput.status input of None \<Rightarrow> Completed | Some st \<Rightarrow> st) \<and>
              (CompleteSessionInput.actualFocusMinutes input = None \<longrightarrow>
                 map_option Session.actualFocusMinutes after =
                   Some (Session.actualFocusMinutes session)) \<and>
              (CompleteSessionInput.actualBreakMinutes input = None \<longrightarrow>
                 map_option Session.actualBreakMinutes after =
                   Some (Session.actualBreakMinutes session)) \<and>
              (CompleteSessionInput.completedCycles input = None \<longrightarrow>
                 map_option Session.completedCycles after =
                   Some (Session.completedCycles session)) \<and>
              (CompleteSessionInput.meta input = None \<longrightarrow>
                 map_option Session.meta after = Some (Session.meta session)))
           [select_session (CompleteSessionInput.id input) u
              (snd (completeSession input context now d)),
            returned (completeSession input context now d)]"
proof -
  obtain r where "returned (completeSession input context now d) =
                  Some (set_complete input session now r)"
    using returned_after_complete [OF assms] by blast
  then show ?thesis
    using select_session_after_complete [OF assms]
    by (simp add: set_complete_def nullish_def nullish_json_def split: option.splits)
qed

theorem completeSession_fields_witness:
  "locals_user (signed_in ''alice'') = Some alice \<and>
   select_session 1 alice example_db = Some evening \<and>
   map_option Session.status
     (select_session 1 alice
        (snd (completeSession (complete_input 1 None) (signed_in ''alice'') 700 example_db))) =
     Some Completed \<and>
   map_option Session.endedAt
     (select_session 1 alice
        (snd (completeSession (complete_input 1 None) (signed_in ''alice'') 700 example_db))) =
     Some (Some 700) \<and>
   map_option Session.actualFocusMinutes
     (select_session 1 alice
        (snd (completeSession (complete_input 1 None) (signed_in ''alice'') 700 example_db))) =
     Some 23 \<and>
   map_option Session.actualBreakMinutes
     (select_session 1 alice
        (snd (completeSession (complete_input 1 None) (signed_in ''alice'') 700 example_db))) =
     Some 4 \<and>
   map_option Session.completedCycles
     (select_session 1 alice
        (snd (completeSession (complete_input 1 None) (signed_in ''alice'') 700 example_db))) =
     Some 3 \<and>
   map_option Session.meta
     (select_session 1 alice
        (snd (completeSession (complete_input 1 None) (signed_in ''alice'') 700 example_db))) =
     Some (JObj [(''tag'', JStr ''maths'')]) \<and>
   map_option Session.status
     (returned (completeSession (complete_input 1 None) (signed_in ''alice'') 700 example_db)) =
     Some Completed \<and>
   map_option Session.actualFocusMinutes
     (returned (completeSession (complete_input 1 None) (signed_in ''alice'') 700 example_db)) =
     Some 23"
proof -
  have sel: "select_session (CompleteSessionInput.id (complete_input 1 None)) alice example_db =
             Some evening"
    using select_evening by (simp add: complete_input_def)
  show ?thesis
    using completeSession_fields [OF alice_signed_in sel, of 700] alice_signed_in select_evening
    by (simp add: complete_input_def evening_def)
qed

lemma completeSession_sessions:
  "\<exists>f. FocusSessions (snd (completeSession input context t d)) =
        map (\<lambda>r. if Session.id r = CompleteSessionInput.id input then f r else r) (FocusSessions d) \<and>
       (\<forall>r. session_frame (f r) = session_frame r)"
proof (cases "\<exists>u session. requireUser context = Inr u \<and> select_session (CompleteSessionInput.id input) u d = Some session")
  case True
  then obtain u session where "requireUser context = Inr u"
     "select_session (CompleteSessionInput.id input) u d = Some session" by blast
  then have "FocusSessions (snd (completeSession input context t d)) =
        map (\<lambda>r. if Session.id r = CompleteSessionInput.id input then set_complete input session t r else r) (FocusSessions d)"
    by (simp add: completeSession_def update_where_def Let_def)
  moreover have "\<forall>r. session_frame (set_complete input session t r) = session_frame r"
    by (simp add: session_frame_def set_complete_def)
  ultimately show ?thesis by blast
next
  case False
  then have "FocusSessions (snd (completeSession input context t d)) = FocusSessions d"
    by (auto simp: completeSession_def split: sum.splits option.splits)
  then show ?thesis
    by (intro exI [of _ "\<lambda>x. x"]) simp
qed

text \<open>
  Claim C10. The caller is signed in and owns the session. \<open>completeSession\<close>
  leaves \<open>id\<close>, \<open>userId\<close>, \<open>presetId\<close>, \<open>label\<close>,
  \<open>plannedFocusMinutes\<close>, \<open>plannedCycles\<close> and \<open>startedAt\<close> of that
  session, and of every row of the table, as they were; every session row with another
  id is unchanged as a whole; and so are the tables of presets and of intervals.
\<close>

theorem completeSession_frame_rows:
  assumes "locals_user context = Some u"
    and "select_session (CompleteSessionInput.id input) u d = Some session"
  shows "map_option session_frame
           (select_session (CompleteSessionInput.id input) u
              (snd (completeSession input context now d))) = Some (session_frame session) \<and>
         map session_frame (FocusSessions (snd (completeSession input context now d))) =
           map session_frame (FocusSessions d) \<and>
         (\<forall>k < length (FocusSessions d).
            Session.id (FocusSessions d ! k) \<noteq> CompleteSessionInput.id input \<longrightarrow>
            FocusSessions (snd (completeSession input context now d)) ! k = FocusSessions d ! k) \<and>
         TimerPresets (snd (completeSession input context now d)) = TimerPresets d \<and>
         FocusIntervals (snd (completeSession input context now d)) = FocusIntervals d"
proof -
  obtain f where f: "FocusSessions (snd (completeSession input context now d)) =
        map (\<lambda>r. if Session.id r = CompleteSessionInput.id input then f r else r) (FocusSessions d)"
     and fr: "\<forall>r. session_frame (f r) = session_frame r"
    using completeSession_sessions [of input "context" now d] by blast
  have 1: "map_option session_frame
           (select_session (CompleteSessionInput.id input) u
              (snd (completeSession input context now d))) = Some (session_frame session)"
    using select_session_after_complete [OF assms, of now]
    by (simp add: session_frame_def set_complete_def)
  have 2: "map session_frame (FocusSessions (snd (completeSession input context now d))) =
           map session_frame (FocusSessions d)"
    using fr by (simp add: f)
  have 3: "\<forall>k < length (FocusSessions d).
            Session.id (FocusSessions d ! k) \<noteq> CompleteSessionInput.id input \<longrightarrow>
            FocusSessions (snd (completeSession input context now d)) ! k = FocusSessions d ! k"
    by (simp add: f)
  show ?thesis
    using 1 2 3 completeSession_frame [of input "context" now d] by simp
qed

theorem completeSession_frame_rows_witness:
  "locals_user (signed_in ''alice'') = Some alice \<and>
   select_session 1 alice example_db = Some evening \<and>
   map_option session_frame
     (select_session 1 alice
        (snd (completeSession (complete_input 1 None) (signed_in ''alice'') 700 example_db))) =
     Some (1, ''alice'', Some 1, Some ''Evening'', Some 25, Some 4, 400) \<and>
   FocusSessions
     (snd (completeSession (complete_input 1 None) (signed_in ''alice'') 700 example_db)) ! 1 =
     bobs_session \<and>
   TimerPresets
     (snd (completeSession (complete_input 1 None) (signed_in ''alice'') 700 example_db)) =
     [classic, deep_work, bobs_preset] \<and>
   FocusIntervals
     (snd (completeSession (complete_input 1 None) (signed_in ''alice'') 700 example_db)) =
     [bobs_interval]"
proof -
  let ?d = "snd (completeSession (complete_input 1 None) (signed_in ''alice'') 700 example_db)"
  have sel: "select_session (CompleteSessionInput.id (complete_input 1 None)) alice example_db =
             Some evening"
    using select_evening by (simp add: complete_input_def)
  note inst = completeSession_frame_rows [OF alice_signed_in sel, of 700]
  have i: "CompleteSessionInput.id (complete_input 1 None) = 1"
    by (simp add: complete_input_def)
  have frame: "map_option session_frame (select_session 1 alice ?d) =
               Some (session_frame evening)"
    using inst by (simp add: i)
  have rows: "\<forall>k < length (FocusSessions example_db).
                Session.id (FocusSessions example_db ! k) \<noteq> 1 \<longrightarrow>
                FocusSessions ?d ! k = FocusSessions example_db ! k"
    using inst by (simp add: i)
  have "(1::nat) < length (FocusSessions example_db)"
    and "Session.id (FocusSessions example_db ! 1) \<noteq> 1"
    and "FocusSessions example_db ! 1 = bobs_session"
    by (simp_all add: example_db_def bobs_session_def)
  with rows have bobs: "FocusSessions ?d ! 1 = bobs_session"
    by metis
  have rest: "TimerPresets ?d = TimerPresets example_db \<and>
              FocusIntervals ?d = FocusIntervals example_db"
    using inst by simp
  show ?thesis
    using alice_signed_in select_evening frame bobs rest
    by (simp add: session_frame_def evening_def example_db_def)
qed

section \<open>\<open>updatePreset\<close> on an owned preset\<close>

lemma updateData_keys_empty:
  "updateData_keys input = [] \<longleftrightarrow> \<not> some_field_supplied input"
  by (simp add: updateData_keys_def some_field_supplied_def split: option.splits)

lemma isDefault_supplied:
  "truthy_boolean (UpdatePresetInput.isDefault input) \<Longrightarrow> some_field_supplied input"
  by (auto simp: truthy_boolean_def some_field_supplied_def split: option.splits)

text \<open>What \<open>updatePreset\<close> does to each row of the table when it finds the preset.\<close>

lemma updatePreset_presets:
  assumes "locals_user context = Some u"
    and "select_preset (UpdatePresetInput.id input) u d = Some existing"
  shows "TimerPresets (snd (updatePreset input context t1 t2 d)) =
         map (\<lambda>p. if some_field_supplied input \<and> owned_preset (UpdatePresetInput.id input) u p
                  then set_updateData input t2 p
                  else if truthy_boolean (UpdatePresetInput.isDefault input) \<and>
                          Preset.ownerId p = User.id u \<and> Preset.isDefault p
                       then clear_default t1 p else p)
           (TimerPresets d)"
proof (cases "truthy_boolean (UpdatePresetInput.isDefault input)")
  case True
  then have sup: "some_field_supplied input" by (rule isDefault_supplied)
  have dflt: "UpdatePresetInput.isDefault input = Some True"
    using True by (cases "UpdatePresetInput.isDefault input") (simp_all add: truthy_boolean_def)
  have same: "\<And>p. set_updateData input t2 (clear_default t1 p) = set_updateData input t2 p"
    by (simp add: set_updateData_def clear_default_def dflt nullish_def cong: option.case_cong)
  show ?thesis
    using requireUser_some [OF assms(1)] assms(2) True sup same
    by (simp add: updatePreset_def updateData_keys_empty update_where_def Let_def
        owned_preset_def clear_default_def)
next
  case False
  show ?thesis
  proof (cases "some_field_supplied input")
    case True
    with False show ?thesis
      using requireUser_some [OF assms(1)] assms(2)
      by (simp add: updatePreset_def updateData_keys_empty update_where_def Let_def)
  next
    case no: False
    with False show ?thesis
      using requireUser_some [OF assms(1)] assms(2)
      by (simp add: updatePreset_def updateData_keys_empty Let_def)
  qed
qed

lemma updatePreset_returns_stored:
  assumes "locals_user context = Some u"
    and "select_preset (UpdatePresetInput.id input) u d = Some existing"
  shows "fst (updatePreset input context t1 t2 d) =
         Inr (select_preset (UpdatePresetInput.id input) u
                (snd (updatePreset input context t1 t2 d)))"
proof (cases "some_field_supplied input")
  case True
  let ?own = "owned_preset (UpdatePresetInput.id input) u"
  have own_set: "\<And>p. ?own (set_updateData input t2 p) = ?own p"
    by (simp add: owned_preset_def set_updateData_def)
  have fm: "\<And>rows. first_row (map (set_updateData input t2) (filter ?own rows)) =
          first_row (filter ?own (map (\<lambda>p. if ?own p then set_updateData input t2 p else p) rows))"
  proof -
    fix rows :: "Preset list"
    show "first_row (map (set_updateData input t2) (filter ?own rows)) =
          first_row (filter ?own (map (\<lambda>p. if ?own p then set_updateData input t2 p else p) rows))"
      using own_set by (induction rows) (auto simp: first_row_def)
  qed
  show ?thesis
    using requireUser_some [OF assms(1)] assms(2) True fm
    by (simp add: updatePreset_def updateData_keys_empty Let_def update_returning_def
        update_where_def select_preset_def select_where_def)
next
  case False
  then have "\<not> truthy_boolean (UpdatePresetInput.isDefault input)"
    using isDefault_supplied by blast
  with False show ?thesis
    using requireUser_some [OF assms(1)] assms(2)
    by (simp add: updatePreset_def updateData_keys_empty Let_def)
qed

lemma select_preset_after_update:
  assumes "locals_user context = Some u"
    and "select_preset (UpdatePresetInput.id input) u d = Some existing"
  shows "select_preset (UpdatePresetInput.id input) u (snd (updatePreset input context t1 t2 d)) =
         Some (if some_field_supplied input then set_updateData input t2 existing else existing)"
proof -
  let ?i = "UpdatePresetInput.id input"
  let ?g = "\<lambda>p. if some_field_supplied input \<and> owned_preset ?i u p
                  then set_updateData input t2 p
                  else if truthy_boolean (UpdatePresetInput.isDefault input) \<and>
                          Preset.ownerId p = User.id u \<and> Preset.isDefault p
                       then clear_default t1 p else p"
  have keep: "\<And>p. owned_preset ?i u (?g p) = owned_preset ?i u p"
    by (simp add: owned_preset_def set_updateData_def clear_default_def)
  have own: "owned_preset ?i u existing"
    using select_preset_owned [OF assms(2)] by (simp add: owned_preset_def)
  have "select_preset ?i u (snd (updatePreset input context t1 t2 d)) =
        first_row (filter (owned_preset ?i u) (map ?g (TimerPresets d)))"
    by (simp add: select_preset_def select_where_def updatePreset_presets [OF assms])
  also have "\<dots> = map_option ?g (first_row (filter (owned_preset ?i u) (TimerPresets d)))"
    using keep by (rule first_row_filter_map)
  also have "\<dots> = Some (?g existing)"
    using assms(2) by (simp add: select_preset_def select_where_def)
  finally show ?thesis
    using own isDefault_supplied [of input] by auto
qed

text \<open>
  Claim C7. The caller is signed in and owns the preset. After \<open>updatePreset\<close> the
  row of that preset, which is also the row returned, has the value of the input in
  every field the input supplies and its prior value in every field the input leaves out;
  \<open>id\<close>, \<open>ownerId\<close> and \<open>createdAt\<close> are as before; and \<open>updatedAt\<close>
  is the clock reading of the final update when the input supplies at least one field,
  and as before when it supplies none.
\<close>

theorem updatePreset_fields:
  assumes "locals_user context = Some u"
    and "select_preset (UpdatePresetInput.id input) u d = Some existing"
  shows "fst (updatePreset input context now_clear now_set d) =
           Inr (select_preset (UpdatePresetInput.id input) u
                  (snd (updatePreset input context now_clear now_set d))) \<and>
         map_option Preset.name
           (select_preset (UpdatePresetInput.id input) u
              (snd (updatePreset input context now_clear now_set d))) =
           Some (case UpdatePresetInput.name input of
                   None \<Rightarrow> Preset.name existing | Some v \<Rightarrow> v) \<and>
         map_option Preset.focusMinutes
           (select_preset (UpdatePresetInput.id input) u
              (snd (updatePreset input context now_clear now_set d))) =
           Some (case UpdatePresetInput.focusMinutes input of
                   None \<Rightarrow> Preset.focusMinutes existing | Some v \<Rightarrow> v) \<and>
         map_option Preset.shortBreakMinutes
           (select_preset (UpdatePresetInput.id input) u
              (snd (updatePreset input context now_clear now_set d))) =
           Some (case UpdatePresetInput.shortBreakMinutes input of
                   None \<Rightarrow> Preset.shortBreakMinutes existing | Some v \<Rightarrow> v) \<and>
         map_option Preset.longBreakMinutes
           (select_preset (UpdatePresetInput.id input) u
              (snd (updatePreset input context now_clear now_set d))) =
           Some (case UpdatePresetInput.longBreakMinutes input of
                   None \<Rightarrow> Preset.longBreakMinutes existing | Some v \<Rightarrow> Some v) \<and>
         map_option Preset.cyclesBeforeLongBreak
           (select_preset (UpdatePresetInput.id input) u
              (snd (updatePreset input context now_clear now_set d))) =
           Some (case UpdatePresetInput.cyclesBeforeLongBreak input of
                   None \<Rightarrow> Preset.cyclesBeforeLongBreak existing | Some v \<Rightarrow> Some v) \<and>
         map_option Preset.cyclesPerBlock
           (select_preset (UpdatePresetInput.id input) u
              (snd (updatePreset input context now_clear now_set d))) =
           Some (case UpdatePresetInput.cyclesPerBlock input of
                   None \<Rightarrow> Preset.cyclesPerBlock existing | Some v \<Rightarrow> Some v) \<and>
         map_option Preset.isDefault
           (select_preset (UpdatePresetInput.id input) u
              (snd (updatePreset input context now_clear now_set d))) =
           Some (case UpdatePresetInput.isDefault input of
                   None \<Rightarrow> Preset.isDefault existing | Some v \<Rightarrow> v) \<and>
         map_option Preset.id
           (select_preset (UpdatePresetInput.id input) u
              (snd (updatePreset input context now_clear now_set d))) =
           Some (Preset.id existing) \<and>
         map_option Preset.ownerId
           (select_preset (UpdatePresetInput.id input) u
              (snd (updatePreset input context now_clear now_set d))) =
           Some (Preset.ownerId existing) \<and>
         map_option Preset.createdAt
           (select_preset (UpdatePresetInput.id input) u
              (snd (updatePreset input context now_clear now_set d))) =
           Some (Preset.createdAt existing) \<and>
         map_option Preset.updatedAt
           (select_preset (UpdatePresetInput.id input) u
              (snd (updatePreset input context now_clear now_set d))) =
           Some (if some_field_supplied input then now_set else Preset.updatedAt existing)"
proof -
  have fields:
    "Preset.name (set_updateData input now_set existing) =
       (case UpdatePresetInput.name input of None \<Rightarrow> Preset.name existing | Some v \<Rightarrow> v)"
    "Preset.focusMinutes (set_updateData input now_set existing) =
       (case UpdatePresetInput.focusMinutes input of
          None \<Rightarrow> Preset.focusMinutes existing | Some v \<Rightarrow> v)"
    "Preset.shortBreakMinutes (set_updateData input now_set existing) =
       (case UpdatePresetInput.shortBreakMinutes input of
          None \<Rightarrow> Preset.shortBreakMinutes existing | Some v \<Rightarrow> v)"
    "Preset.longBreakMinutes (set_updateData input now_set existing) =
       (case UpdatePresetInput.longBreakMinutes input of
          None \<Rightarrow> Preset.longBreakMinutes existing | Some v \<Rightarrow> Some v)"
    "Preset.cyclesBeforeLongBreak (set_updateData input now_set existing) =
       (case UpdatePresetInput.cyclesBeforeLongBreak input of
          None \<Rightarrow> Preset.cyclesBeforeLongBreak existing | Some v \<Rightarrow> Some v)"
    "Preset.cyclesPerBlock (set_updateData input now_set existing) =
       (case UpdatePresetInput.cyclesPerBlock input of
          None \<Rightarrow> Preset.cyclesPerBlock existing | Some v \<Rightarrow> Some v)"
    "Preset.isDefault (set_updateData input now_set existing) =
       (case UpdatePresetInput.isDefault input of
          None \<Rightarrow> Preset.isDefault existing | Some v \<Rightarrow> v)"
    "Preset.id (set_updateData input now_set existing) = Preset.id existing"
    "Preset.ownerId (set_updateData input now_set existing) = Preset.ownerId existing"
    "Preset.createdAt (set_updateData input now_set existing) = Preset.createdAt existing"
    "Preset.updatedAt (set_updateData input now_set existing) = now_set"
    by (simp_all add: set_updateData_def nullish_def)
  show ?thesis
  proof (cases "some_field_supplied input")
    case True
    then show ?thesis
      using updatePreset_returns_stored [OF assms, of now_clear now_set]
        select_preset_after_update [OF assms, of now_clear now_set] fields
      by simp
  next
    case False
    then have none: "UpdatePresetInput.name input = None"
      "UpdatePresetInput.focusMinutes input = None"
      "UpdatePresetInput.shortBreakMinutes input = None"
      "UpdatePresetInput.longBreakMinutes input = None"
      "UpdatePresetInput.cyclesBeforeLongBreak input = None"
      "UpdatePresetInput.cyclesPerBlock input = None"
      "UpdatePresetInput.isDefault input = None"
      by (simp_all add: some_field_supplied_def)
    from False show ?thesis
      using updatePreset_returns_stored [OF assms, of now_clear now_set]
        select_preset_after_update [OF assms, of now_clear now_set] none
      by simp
  qed
qed

theorem updatePreset_fields_witness:
  "locals_user (signed_in ''alice'') = Some alice \<and>
   select_preset 2 alice example_db = Some deep_work \<and>
   some_field_supplied update_default_input \<and>
   returned (updatePreset update_default_input (signed_in ''alice'') 710 711 example_db) =
     select_preset 2 alice
       (snd (updatePreset update_default_input (signed_in ''alice'') 710 711 example_db)) \<and>
   map_option Preset.name
     (select_preset 2 alice
        (snd (updatePreset update_default_input (signed_in ''alice'') 710 711 example_db))) =
     Some ''Deeper Work'' \<and>
   map_option Preset.isDefault
     (select_preset 2 alice
        (snd (updatePreset update_default_input (signed_in ''alice'') 710 711 example_db))) =
     Some True \<and>
   map_option Preset.focusMinutes
     (select_preset 2 alice
        (snd (updatePreset update_default_input (signed_in ''alice'') 710 711 example_db))) =
     Some 50 \<and>
   map_option Preset.longBreakMinutes
     (select_preset 2 alice
        (snd (updatePreset update_default_input (signed_in ''alice'') 710 711 example_db))) =
     Some (Some 30) \<and>
   map_option Preset.createdAt
     (select_preset 2 alice
        (snd (updatePreset update_default_input (signed_in ''alice'') 710 711 example_db))) =
     Some 200 \<and>
   map_option Preset.updatedAt
     (select_preset 2 alice
        (snd (updatePreset update_default_input (signed_in ''alice'') 710 711 example_db))) =
     Some 711"
proof -
  have i: "UpdatePresetInput.id update_default_input = 2"
    by (simp add: update_default_input_def)
  have sel: "select_preset (UpdatePresetInput.id update_default_input) alice example_db =
             Some deep_work"
    using select_deep_work by (simp add: i)
  have sup: "some_field_supplied update_default_input"
    by (simp add: some_field_supplied_def update_default_input_def)
  show ?thesis
    using updatePreset_fields [OF alice_signed_in sel, of 710 711] alice_signed_in
      select_deep_work sup
    by (simp add: i returned_def update_default_input_def deep_work_def)
qed

section \<open>\<open>createPreset\<close> and the other presets of the caller\<close>

lemma id_if_clear:
  "Preset.id (if b then clear_default t p else p) = Preset.id p"
  by (simp add: clear_default_def)

text \<open>What \<open>createPreset\<close> does to the table when the caller is signed in.\<close>

lemma createPreset_presets:
  assumes "locals_user context = Some u"
  shows "\<exists>new. fst (createPreset input context t1 t2 t3 d) = Inr new \<and>
           TimerPresets (snd (createPreset input context t1 t2 t3 d)) =
             map (\<lambda>p. if truthy_boolean (CreatePresetInput.isDefault input) \<and>
                         Preset.ownerId p = User.id u
                      then clear_default t1 p else p) (TimerPresets d) @ [new] \<and>
           Preset.id new = autoIncrement (map Preset.id (TimerPresets d)) \<and>
           Preset.ownerId new = User.id u \<and>
           Preset.isDefault new = truthy_boolean (CreatePresetInput.isDefault input)"
  using requireUser_some [OF assms]
  by (cases "CreatePresetInput.isDefault input")
     (simp_all add: createPreset_def Let_def insert_row_def update_where_def truthy_boolean_def
      nullish_def comp_def id_if_clear)

text \<open>
  Claim C9. The caller is signed in and the input has \<open>isDefault = true\<close>. Then the
  table has one row more, and every row that was there and belongs to the caller has
  \<open>isDefault = false\<close> and \<open>updatedAt\<close> equal to the clock reading of the
  clearing update, whatever its \<open>isDefault\<close> was, with all its other columns as
  before; the rows of other owners are unchanged; and the new row comes after them, is
  the row returned, belongs to the caller and is the default.
\<close>

theorem createPreset_clears_all:
  assumes "locals_user context = Some u"
    and "CreatePresetInput.isDefault input = Some True"
  shows "length (TimerPresets (snd (createPreset input context now_clear now_created now_updated d))) =
           length (TimerPresets d) + 1 \<and>
         (\<forall>k < length (TimerPresets d).
            if Preset.ownerId (TimerPresets d ! k) = User.id u
            then Preset.isDefault
                   (TimerPresets (snd (createPreset input context now_clear now_created now_updated d)) ! k) = False \<and>
                 Preset.updatedAt
                   (TimerPresets (snd (createPreset input context now_clear now_created now_updated d)) ! k) = now_clear \<and>
                 preset_frame
                   (TimerPresets (snd (createPreset input context now_clear now_created now_updated d)) ! k) =
                   preset_frame (TimerPresets d ! k)
            else TimerPresets (snd (createPreset input context now_clear now_created now_updated d)) ! k =
                   TimerPresets d ! k) \<and>
         fst (createPreset input context now_clear now_created now_updated d) =
           Inr (TimerPresets (snd (createPreset input context now_clear now_created now_updated d)) !
                  length (TimerPresets d)) \<and>
         Preset.isDefault
           (TimerPresets (snd (createPreset input context now_clear now_created now_updated d)) !
              length (TimerPresets d)) = True \<and>
         Preset.ownerId
           (TimerPresets (snd (createPreset input context now_clear now_created now_updated d)) !
              length (TimerPresets d)) = User.id u"
proof -
  let ?res = "createPreset input context now_clear now_created now_updated d"
  let ?g = "\<lambda>p. if Preset.ownerId p = User.id u then clear_default now_clear p else p"
  have t: "truthy_boolean (CreatePresetInput.isDefault input)"
    by (simp add: assms(2) truthy_boolean_def)
  obtain new where ret: "fst ?res = Inr new"
    and rows: "TimerPresets (snd ?res) = map ?g (TimerPresets d) @ [new]"
    and new: "Preset.ownerId new = User.id u" "Preset.isDefault new = True"
    using createPreset_presets [OF assms(1), of input now_clear now_created now_updated d] t
    by auto
  have len: "length (TimerPresets (snd ?res)) = length (TimerPresets d) + 1"
    by (simp add: rows)
  have old: "\<forall>k < length (TimerPresets d). TimerPresets (snd ?res) ! k = ?g (TimerPresets d ! k)"
    by (simp add: rows nth_append)
  have last: "TimerPresets (snd ?res) ! length (TimerPresets d) = new"
    by (simp add: rows nth_append)
  have cleared: "\<And>p. Preset.isDefault (clear_default now_clear p) = False \<and>
                     Preset.updatedAt (clear_default now_clear p) = now_clear \<and>
                     preset_frame (clear_default now_clear p) = preset_frame p"
    by (simp add: clear_default_def preset_frame_def)
  show ?thesis
    using len old last ret new cleared by simp
qed

theorem createPreset_clears_all_witness:
  "locals_user (signed_in ''alice'') = Some alice \<and>
   CreatePresetInput.isDefault create_default_input = Some True \<and>
   TimerPresets example_db ! 1 = deep_work \<and>
   Preset.isDefault deep_work = False \<and>
   Preset.updatedAt deep_work = 200 \<and>
   Preset.isDefault
     (TimerPresets
        (snd (createPreset create_default_input (signed_in ''alice'') 700 701 702 example_db)) !
      1) = False \<and>
   Preset.updatedAt
     (TimerPresets
        (snd (createPreset create_default_input (signed_in ''alice'') 700 701 702 example_db)) !
      1) = 700 \<and>
   TimerPresets
     (snd (createPreset create_default_input (signed_in ''alice'') 700 701 702 example_db)) ! 2 =
     bobs_preset \<and>
   Preset.isDefault
     (TimerPresets
        (snd (createPreset create_default_input (signed_in ''alice'') 700 701 702 example_db)) !
      3) = True"
proof -
  let ?d = "snd (createPreset create_default_input (signed_in ''alice'') 700 701 702 example_db)"
  have dflt: "CreatePresetInput.isDefault create_default_input = Some True"
    by (simp add: create_default_input_def)
  note inst = createPreset_clears_all [OF alice_signed_in dflt, of 700 701 702 example_db]
  have len: "length (TimerPresets example_db) = 3"
    by (simp add: example_db_def)
  have rows: "\<forall>k < 3.
            if Preset.ownerId (TimerPresets example_db ! k) = User.id alice
            then Preset.isDefault (TimerPresets ?d ! k) = False \<and>
                 Preset.updatedAt (TimerPresets ?d ! k) = 700 \<and>
                 preset_frame (TimerPresets ?d ! k) = preset_frame (TimerPresets example_db ! k)
            else TimerPresets ?d ! k = TimerPresets example_db ! k"
    using inst by (simp only: len) blast
  have r1: "TimerPresets example_db ! 1 = deep_work"
    and r2: "TimerPresets example_db ! 2 = bobs_preset"
    by (simp_all add: example_db_def)
  have o1: "Preset.ownerId deep_work = User.id alice"
    and o2: "Preset.ownerId bobs_preset \<noteq> User.id alice"
    by (simp_all add: deep_work_def bobs_preset_def alice_def)
  have "(1::nat) < 3" by simp
  with rows have
    "if Preset.ownerId (TimerPresets example_db ! 1) = User.id alice
     then Preset.isDefault (TimerPresets ?d ! 1) = False \<and>
          Preset.updatedAt (TimerPresets ?d ! 1) = 700 \<and>
          preset_frame (TimerPresets ?d ! 1) = preset_frame (TimerPresets example_db ! 1)
     else TimerPresets ?d ! 1 = TimerPresets example_db ! 1"
    by blast
  then have a: "Preset.isDefault (TimerPresets ?d ! 1) = False \<and>
                Preset.updatedAt (TimerPresets ?d ! 1) = 700"
    using r1 o1 by simp
  have "(2::nat) < 3" by simp
  with rows have
    "if Preset.ownerId (TimerPresets example_db ! 2) = User.id alice
     then Preset.isDefault (TimerPresets ?d ! 2) = False \<and>
          Preset.updatedAt (TimerPresets ?d ! 2) = 700 \<and>
          preset_frame (TimerPresets ?d ! 2) = preset_frame (TimerPresets example_db ! 2)
     else TimerPresets ?d ! 2 = TimerPresets example_db ! 2"
    by blast
  then have b: "TimerPresets ?d ! 2 = bobs_preset"
    using r2 o2 by simp
  have c: "Preset.isDefault (TimerPresets ?d ! 3) = True"
    using inst by (simp add: len)
  have e: "Preset.isDefault deep_work = False \<and> Preset.updatedAt deep_work = 200"
    by (simp add: deep_work_def)
  show ?thesis
    using alice_signed_in dflt r1 e a b c by simp
qed

section \<open>At most one default preset\<close>

lemma foldr_max_upper: "x \<in> set ids \<Longrightarrow> x \<le> foldr max ids (0::int)"
  by (induction ids) auto

lemma autoIncrement_fresh: "autoIncrement ids \<notin> set ids"
  using foldr_max_upper [of "autoIncrement ids" ids] by (auto simp: autoIncrement_def)

lemma length_filter_le_mono:
  "(\<And>x. x \<in> set xs \<Longrightarrow> P x \<Longrightarrow> Q x) \<Longrightarrow> length (filter P xs) \<le> length (filter Q xs)"
  by (induction xs) auto

lemma length_filter_key_le_1:
  "distinct (map f xs) \<Longrightarrow> length (filter (\<lambda>x. f x = i \<and> R x) xs) \<le> 1"
proof (induction xs)
  case Nil
  then show ?case by simp
next
  case (Cons a xs)
  show ?case
  proof (cases "f a = i")
    case True
    then have "\<forall>x \<in> set xs. f x \<noteq> i" using Cons.prems by (force simp: image_iff)
    then have "filter (\<lambda>x. f x = i \<and> R x) xs = []" by (simp add: filter_empty_conv)
    then show ?thesis by simp
  next
    case False
    then show ?thesis using Cons by simp
  qed
qed

lemma length_filter_map: "length (filter P (map g xs)) = length (filter (\<lambda>x. P (g x)) xs)"
  by (simp add: filter_map comp_def)

lemma createPreset_primary_key:
  assumes "presets_primary_key d"
  shows "presets_primary_key (snd (createPreset input context t1 t2 t3 d))"
proof (cases "locals_user context")
  case None
  then show ?thesis
    using assms requireUser_none [of "context"] by (simp add: createPreset_def)
next
  case (Some u)
  let ?g = "\<lambda>p. if truthy_boolean (CreatePresetInput.isDefault input) \<and>
                         Preset.ownerId p = User.id u
                      then clear_default t1 p else p"
  obtain new where rows: "TimerPresets (snd (createPreset input context t1 t2 t3 d)) =
       map ?g (TimerPresets d) @ [new]"
    and new: "Preset.id new = autoIncrement (map Preset.id (TimerPresets d))"
    using createPreset_presets [OF Some, of input t1 t2 t3 d] by blast
  have ids: "map Preset.id (map ?g (TimerPresets d)) = map Preset.id (TimerPresets d)"
    by (simp add: clear_default_def)
  have "map Preset.id (TimerPresets (snd (createPreset input context t1 t2 t3 d))) =
        map Preset.id (TimerPresets d) @ [autoIncrement (map Preset.id (TimerPresets d))]"
    unfolding rows using ids new by simp
  then show ?thesis
    using assms autoIncrement_fresh [of "map Preset.id (TimerPresets d)"]
    by (simp add: presets_primary_key_def)
qed

lemma createPreset_one_default:
  assumes "at_most_one_default owner d"
  shows "at_most_one_default owner (snd (createPreset input context t1 t2 t3 d))"
proof (cases "locals_user context")
  case None
  then show ?thesis
    using assms requireUser_none [of "context"] by (simp add: createPreset_def)
next
  case (Some u)
  let ?t = "truthy_boolean (CreatePresetInput.isDefault input)"
  let ?g = "\<lambda>p. if ?t \<and> Preset.ownerId p = User.id u then clear_default t1 p else p"
  let ?Q = "\<lambda>p. Preset.ownerId p = owner \<and> Preset.isDefault p"
  obtain new where rows: "TimerPresets (snd (createPreset input context t1 t2 t3 d)) =
       map ?g (TimerPresets d) @ [new]"
    and new: "Preset.ownerId new = User.id u" "Preset.isDefault new = ?t"
    using createPreset_presets [OF Some, of input t1 t2 t3 d] by blast
  have count: "length (default_presets owner (snd (createPreset input context t1 t2 t3 d))) =
        length (filter (\<lambda>p. ?Q (?g p)) (TimerPresets d)) + (if ?Q new then 1 else 0)"
    by (simp add: default_presets_def rows length_filter_map comp_def)
  show ?thesis
  proof (cases "?t \<and> owner = User.id u")
    case True
    then have "filter (\<lambda>p. ?Q (?g p)) (TimerPresets d) = []"
      by (simp add: filter_empty_conv clear_default_def)
    then show ?thesis
      using count by (simp add: at_most_one_default_def)
  next
    case False
    then have notnew: "\<not> ?Q new" using new by auto
    have "length (filter (\<lambda>p. ?Q (?g p)) (TimerPresets d)) \<le> length (filter ?Q (TimerPresets d))"
      by (rule length_filter_le_mono) (auto simp: clear_default_def split: if_splits)
    then show ?thesis
      using count notnew assms by (simp add: at_most_one_default_def default_presets_def)
  qed
qed

lemma updatePreset_unchanged:
  assumes "\<not> (\<exists>u existing. locals_user context = Some u \<and>
               select_preset (UpdatePresetInput.id input) u d = Some existing)"
  shows "snd (updatePreset input context t1 t2 d) = d"
proof (cases "locals_user context")
  case None
  then show ?thesis
    using requireUser_none [of "context"] by (simp add: updatePreset_def)
next
  case (Some u)
  then have "select_preset (UpdatePresetInput.id input) u d = None"
    using assms by (cases "select_preset (UpdatePresetInput.id input) u d") auto
  then show ?thesis
    using requireUser_some [OF Some] by (simp add: updatePreset_def)
qed

lemma updatePreset_primary_key:
  assumes "presets_primary_key d"
  shows "presets_primary_key (snd (updatePreset input context t1 t2 d))"
proof (cases "\<exists>u existing. locals_user context = Some u \<and>
               select_preset (UpdatePresetInput.id input) u d = Some existing")
  case True
  then obtain u existing where u: "locals_user context = Some u"
    and e: "select_preset (UpdatePresetInput.id input) u d = Some existing" by blast
  have "map Preset.id (TimerPresets (snd (updatePreset input context t1 t2 d))) =
        map Preset.id (TimerPresets d)"
    unfolding updatePreset_presets [OF u e]
    by (simp add: set_updateData_def clear_default_def)
  then show ?thesis
    using assms by (simp add: presets_primary_key_def)
next
  case False
  then show ?thesis
    using assms updatePreset_unchanged [of "context" input d t1 t2] by simp
qed

lemma updatePreset_one_default:
  assumes "presets_primary_key d" and "at_most_one_default owner d"
  shows "at_most_one_default owner (snd (updatePreset input context t1 t2 d))"
proof (cases "\<exists>u existing. locals_user context = Some u \<and>
               select_preset (UpdatePresetInput.id input) u d = Some existing")
  case False
  then show ?thesis
    using assms updatePreset_unchanged [of "context" input d t1 t2] by simp
next
  case True
  then obtain u existing where u: "locals_user context = Some u"
    and e: "select_preset (UpdatePresetInput.id input) u d = Some existing" by blast
  let ?i = "UpdatePresetInput.id input"
  let ?t = "truthy_boolean (UpdatePresetInput.isDefault input)"
  let ?g = "\<lambda>p. if some_field_supplied input \<and> owned_preset ?i u p
                  then set_updateData input t2 p
                  else if ?t \<and> Preset.ownerId p = User.id u \<and> Preset.isDefault p
                       then clear_default t1 p else p"
  let ?Q = "\<lambda>p. Preset.ownerId p = owner \<and> Preset.isDefault p"
  have count: "length (default_presets owner (snd (updatePreset input context t1 t2 d))) =
        length (filter (\<lambda>p. ?Q (?g p)) (TimerPresets d))"
  proof -
    have "TimerPresets (snd (updatePreset input context t1 t2 d)) = map ?g (TimerPresets d)"
      by (rule updatePreset_presets [OF u e])
    then have "default_presets owner (snd (updatePreset input context t1 t2 d)) =
               filter ?Q (map ?g (TimerPresets d))"
      by (simp only: default_presets_def)
    then show ?thesis
      by (simp only: length_filter_map)
  qed
  show ?thesis
  proof (cases "?t \<and> owner = User.id u")
    case True
    then have dflt: "UpdatePresetInput.isDefault input = Some True"
      by (cases "UpdatePresetInput.isDefault input") (simp_all add: truthy_boolean_def)
    have "length (filter (\<lambda>p. ?Q (?g p)) (TimerPresets d)) \<le>
          length (filter (\<lambda>p. Preset.id p = ?i \<and> Preset.ownerId p = User.id u) (TimerPresets d))"
      using True
      by (intro length_filter_le_mono)
         (auto simp: owned_preset_def clear_default_def split: if_splits)
    also have "\<dots> \<le> 1"
      using assms(1) unfolding presets_primary_key_def by (rule length_filter_key_le_1)
    finally show ?thesis
      using count by (simp add: at_most_one_default_def)
  next
    case False
    have keep: "\<And>p. ?Q (?g p) \<Longrightarrow> ?Q p"
    proof -
      fix p assume q: "?Q (?g p)"
      show "?Q p"
      proof (cases "some_field_supplied input \<and> owned_preset ?i u p")
        case True
        then have own: "Preset.ownerId p = User.id u" by (simp add: owned_preset_def)
        from q True have o: "Preset.ownerId p = owner" and
          d: "nullish (UpdatePresetInput.isDefault input) (Preset.isDefault p)"
          by (simp_all add: set_updateData_def)
        from False own o have "\<not> ?t" by simp
        with d have "Preset.isDefault p"
          by (cases "UpdatePresetInput.isDefault input") (simp_all add: nullish_def truthy_boolean_def)
        with o show ?thesis by simp
      next
        case no: False
        with q show ?thesis
          by (auto simp: clear_default_def split: if_splits)
      qed
    qed
    have "length (filter (\<lambda>p. ?Q (?g p)) (TimerPresets d)) \<le> length (filter ?Q (TimerPresets d))"
      using keep by (intro length_filter_le_mono) blast
    then show ?thesis
      using count assms(2) by (simp add: at_most_one_default_def default_presets_def)
  qed
qed

lemma call_db_presets_invariant:
  assumes "presets_primary_key d" and "at_most_one_default owner d"
  shows "presets_primary_key (call_db context c d) \<and>
         at_most_one_default owner (call_db context c d)"
proof (cases c)
  case (CreatePreset input t1 t2 t3)
  then show ?thesis
    using assms by (simp add: createPreset_primary_key createPreset_one_default)
next
  case (UpdatePreset input t1 t2)
  then show ?thesis
    using assms by (simp add: updatePreset_primary_key updatePreset_one_default)
next
  case ListPresets
  then show ?thesis using assms by (simp add: listPresets_db)
next
  case (StartSession input t)
  then show ?thesis
    using assms startSession_frame [of input "context" t d]
    by (simp add: presets_primary_key_def at_most_one_default_def default_presets_def)
next
  case (CompleteSession input t)
  then show ?thesis
    using assms completeSession_frame [of input "context" t d]
    by (simp add: presets_primary_key_def at_most_one_default_def default_presets_def)
next
  case (AddInterval input t)
  then show ?thesis
    using assms addInterval_frame [of input "context" t d]
    by (simp add: presets_primary_key_def at_most_one_default_def default_presets_def)
next
  case (ListIntervals input)
  then show ?thesis using assms by (simp add: listIntervals_db)
qed

lemma run_presets_invariant:
  "presets_primary_key d \<Longrightarrow> at_most_one_default owner d \<Longrightarrow>
   presets_primary_key (run cs d) \<and> at_most_one_default owner (run cs d)"
proof (induction cs arbitrary: d)
  case Nil
  then show ?case by simp
next
  case (Cons a cs)
  obtain ctx c where a: "a = (ctx, c)" by (cases a)
  have "presets_primary_key (call_db ctx c d) \<and> at_most_one_default owner (call_db ctx c d)"
    using Cons.prems by (rule call_db_presets_invariant)
  then have "presets_primary_key (run cs (call_db ctx c d)) \<and>
             at_most_one_default owner (run cs (call_db ctx c d))"
    using Cons.IH by blast
  then show ?case by (simp add: a)
qed

text \<open>
  Claim C1. From a database in which no two presets share an id (the primary key) and
  an owner has at most one default preset, the owner has at most one default preset
  after any sequence of calls: of \<open>createPreset\<close> and \<open>updatePreset\<close> by that
  owner, as the claim has it, and also when calls of the other operations and of other
  callers come between them.
\<close>

theorem at_most_one_default_invariant:
  assumes "presets_primary_key d" and "at_most_one_default owner d"
  shows "at_most_one_default owner (run cs d)"
  using run_presets_invariant [OF assms] by simp

theorem at_most_one_default_invariant_witness:
  "presets_primary_key example_db \<and>
   at_most_one_default ''alice'' example_db \<and>
   at_most_one_default ''alice'' (run example_preset_calls example_db)"
  using at_most_one_default_invariant [OF example_db_primary_key example_db_one_default,
      of example_preset_calls]
    example_db_primary_key example_db_one_default
  by simp

end
